theory Spec2Isabelle
  imports Complex_Main "HOL-Library.Product_Lexorder" "HOL-Library.Multiset"
begin

section \<open>Domain model (models/*.py)\<close>

text \<open>
  Conventions of the embedding.
  \<^item> A \<^verbatim>\<open>datetime.time\<close> is the pair (hour, minute); pairs are ordered
    lexicographically, as Python orders times.
  \<^item> A Python \<^verbatim>\<open>dict\<close> that the code iterates is an association list in insertion
    order with distinct keys; the index dictionaries of the scheduler state, which are
    only looked up, are maps.
  \<^item> A Python \<^verbatim>\<open>float\<close> is the real number it denotes; rounding is not modelled.
  \<^item> An optional list (\<^verbatim>\<open>None\<close> or a list) that the code only tests for truthiness
    before reading is a list, \<^verbatim>\<open>None\<close> being the empty one.
  \<^item> Logging and the progress callback have no effect on any value and are left out.
\<close>

datatype Day = SUNDAY | MONDAY | TUESDAY | WEDNESDAY | THURSDAY | FRIDAY | SATURDAY

type_synonym ptime = "nat \<times> nat"

definition hour :: "ptime \<Rightarrow> nat" where
  "hour t = fst t"

definition minute :: "ptime \<Rightarrow> nat" where
  "minute t = snd t"

datatype error =
    HourOutOfRange
  | NoValidSchedule
  | MissingStudyPlan
  | RoomAlreadyBooked
  | StaffAlreadyBooked
  | BlockAlreadyAssigned
  | RoomConflict
  | StaffConflict

text \<open>\<^verbatim>\<open>time(h, m)\<close> raises ValueError outside 0..23 and 0..59.\<close>

definition mk_time :: "int \<Rightarrow> int \<Rightarrow> error + ptime" where
  "mk_time h m =
     (if 0 \<le> h \<and> h \<le> 23 \<and> 0 \<le> m \<and> m \<le> 59 then Inr (nat h, nat m)
      else Inl HourOutOfRange)"

datatype TimePreference =
  TimePreference (day: Day) (start_time: ptime) (end_time: ptime)

datatype LabType = GENERAL | SPECIALIST

datatype Hall =
  Hall (hall_id: int) (hall_name: string) (hall_capacity: int)
       (hall_availability: "TimePreference list")

datatype Lab =
  Lab (lab_id: int) (lab_name: string) (lab_capacity: int)
      (lab_availability: "TimePreference list") (lab_type: LabType)
      (used_in_non_specialist_courses: bool)

datatype Room = IsHall Hall | IsLab Lab

fun isinstance_Hall :: "Room \<Rightarrow> bool" where
  "isinstance_Hall (IsHall h) = True"
| "isinstance_Hall (IsLab l) = False"

fun isinstance_Lab :: "Room \<Rightarrow> bool" where
  "isinstance_Lab (IsHall h) = False"
| "isinstance_Lab (IsLab l) = True"

fun room_id :: "Room \<Rightarrow> int" where
  "room_id (IsHall h) = hall_id h"
| "room_id (IsLab l) = lab_id l"

fun capacity :: "Room \<Rightarrow> int" where
  "capacity (IsHall h) = hall_capacity h"
| "capacity (IsLab l) = lab_capacity l"

fun availability :: "Room \<Rightarrow> TimePreference list" where
  "availability (IsHall h) = hall_availability h"
| "availability (IsLab l) = lab_availability l"

text \<open>
  Only labs carry the flag; \<^verbatim>\<open>check_lab_requirements\<close> reads it after its
  \<^verbatim>\<open>isinstance(room, Lab)\<close> test, so the hall case is never evaluated there.
\<close>

fun room_used_in_non_specialist_courses :: "Room \<Rightarrow> bool" where
  "room_used_in_non_specialist_courses (IsHall h) = False"
| "room_used_in_non_specialist_courses (IsLab l) = used_in_non_specialist_courses l"

datatype StaffInfo =
  StaffInfo (info_id: int) (info_name: string) (info_timing_preferences: "TimePreference list")

datatype StaffMember = Lecturer StaffInfo | TeachingAssistant StaffInfo

fun staff_info :: "StaffMember \<Rightarrow> StaffInfo" where
  "staff_info (Lecturer i) = i"
| "staff_info (TeachingAssistant i) = i"

definition staff_id :: "StaffMember \<Rightarrow> int" where
  "staff_id s = info_id (staff_info s)"

definition timing_preferences :: "StaffMember \<Rightarrow> TimePreference list" where
  "timing_preferences s = info_timing_preferences (staff_info s)"

fun isinstance_Lecturer :: "StaffMember \<Rightarrow> bool" where
  "isinstance_Lecturer (Lecturer i) = True"
| "isinstance_Lecturer (TeachingAssistant i) = False"

fun isinstance_TeachingAssistant :: "StaffMember \<Rightarrow> bool" where
  "isinstance_TeachingAssistant (Lecturer i) = False"
| "isinstance_TeachingAssistant (TeachingAssistant i) = True"

text \<open>
  \<^verbatim>\<open>CourseAssignment\<close>: the lecturer and TA assignment dictionaries are pairs
  (staff, num_of_groups).
\<close>

datatype CourseAssignment =
  CourseAssignment (course_id: int) (ca_course_code: string) (lecture_groups: int)
    (lecturers: "(StaffInfo \<times> int) list") (lab_groups: int)
    (teaching_assistants: "(StaffInfo \<times> int) list") (practical_in_lab: bool)
    (preferred_labs: "Lab list")

datatype StudyPlan =
  StudyPlan (sp_name: string) (sp_academic_list: string) (sp_academic_level: int)
    (expected_students: int)

datatype BlockType = LECTURE | LAB

datatype Block =
  Block (block_id: string) (course_code: string) (course_object: CourseAssignment)
    (block_type: BlockType) (staff_member: StaffMember) (student_count: int)
    (required_room_type: string) (group_number: int) (total_groups: int)
    (is_single_group_course: bool) (academic_list: string) (academic_level: int)
    (block_practical_in_lab: bool) (preferred_rooms: "Room list")

datatype Assignment =
  Assignment (block: Block) (time_slot: TimePreference) (room: Room)

type_synonym slot_key = "Day \<times> ptime"

type_synonym room_key = "string \<times> int"

type_synonym assignments = "(string \<times> Assignment) list"

definition slot_key_of :: "TimePreference \<Rightarrow> slot_key" where
  "slot_key_of s = (day s, start_time s)"

subsection \<open>utils/room_utils.py\<close>

definition get_room_key :: "Room \<Rightarrow> room_key" where
  "get_room_key r = (if isinstance_Hall r then ''hall'' else ''lab'', room_id r)"

subsection \<open>Python dictionaries that are iterated\<close>

definition dict_keys :: "('k \<times> 'v) list \<Rightarrow> 'k list" where
  "dict_keys d = map fst d"

definition dict_values :: "('k \<times> 'v) list \<Rightarrow> 'v list" where
  "dict_values d = map snd d"

text \<open>\<^verbatim>\<open>d[k] = v\<close>: an existing key keeps its position, a new key goes last.\<close>

definition dict_set :: "('k \<times> 'v) list \<Rightarrow> 'k \<Rightarrow> 'v \<Rightarrow> ('k \<times> 'v) list" where
  "dict_set d k v =
     (if k \<in> set (dict_keys d) then map (\<lambda>(k', v'). if k' = k then (k', v) else (k', v')) d
      else d @ [(k, v)])"

section \<open>Constraint manager (managers/constraint_manager.py)\<close>

record SchedulerState =
  room_bookings :: "room_key \<rightharpoonup> (slot_key \<rightharpoonup> string)"
  staff_bookings :: "int \<rightharpoonup> (slot_key \<rightharpoonup> string)"
  course_slots :: "string \<rightharpoonup> (slot_key \<rightharpoonup> int)"
  level_slots :: "(string \<times> int) \<rightharpoonup> (Day \<rightharpoonup> ptime list)"
  study_plan_slots :: "(string \<times> Day \<times> ptime) \<rightharpoonup> string list"

definition create_empty :: SchedulerState where
  "create_empty =
     \<lparr> room_bookings = Map.empty, staff_bookings = Map.empty, course_slots = Map.empty,
       level_slots = Map.empty, study_plan_slots = Map.empty \<rparr>"

record ConstraintManager =
  state :: SchedulerState
  current_assignments :: assignments

definition initialize_fresh_state :: "ConstraintManager \<Rightarrow> ConstraintManager" where
  "initialize_fresh_state cm = cm\<lparr> state := create_empty, current_assignments := [] \<rparr>"

definition new_ConstraintManager :: ConstraintManager where
  "new_ConstraintManager = \<lparr> state = create_empty, current_assignments = [] \<rparr>"

definition get_all_assignments :: "ConstraintManager \<Rightarrow> assignments" where
  "get_all_assignments cm = current_assignments cm"

subsection \<open>The defensive check before a commit\<close>

fun verify_scan :: "slot_key \<Rightarrow> room_key \<Rightarrow> int \<Rightarrow> assignments \<Rightarrow> error + unit" where
  "verify_scan sk rk sid [] = Inr ()"
| "verify_scan sk rk sid ((bid, a) # rest) =
     (if day (time_slot a) = fst sk \<and> start_time (time_slot a) = snd sk then
        (if get_room_key (room a) = rk then Inl RoomAlreadyBooked
         else if staff_id (staff_member (block a)) = sid then Inl StaffAlreadyBooked
         else verify_scan sk rk sid rest)
      else verify_scan sk rk sid rest)"

definition verify_no_conflicts_before_commit ::
  "ConstraintManager \<Rightarrow> Assignment \<Rightarrow> error + unit" where
  "verify_no_conflicts_before_commit cm new_assignment =
     verify_scan (day (time_slot new_assignment), start_time (time_slot new_assignment))
       (get_room_key (room new_assignment))
       (staff_id (staff_member (block new_assignment)))
       (current_assignments cm)"

subsection \<open>Index updates of \<^verbatim>\<open>_add_to_state\<close>\<close>

text \<open>\<^verbatim>\<open>if key not in d: d[key] = {}\<close> followed by a read of \<^verbatim>\<open>d[key]\<close>.\<close>

definition setdefault_empty :: "('k \<rightharpoonup> ('j \<rightharpoonup> 'v)) \<Rightarrow> 'k \<Rightarrow> ('k \<rightharpoonup> ('j \<rightharpoonup> 'v))" where
  "setdefault_empty d k = (case d k of None \<Rightarrow> d(k \<mapsto> Map.empty) | Some inner \<Rightarrow> d)"

definition inner_dict :: "('k \<rightharpoonup> ('j \<rightharpoonup> 'v)) \<Rightarrow> 'k \<Rightarrow> ('j \<rightharpoonup> 'v)" where
  "inner_dict d k = (case d k of None \<Rightarrow> Map.empty | Some inner \<Rightarrow> inner)"

definition set_inner :: "('k \<rightharpoonup> ('j \<rightharpoonup> 'v)) \<Rightarrow> 'k \<Rightarrow> 'j \<Rightarrow> 'v \<Rightarrow> ('k \<rightharpoonup> ('j \<rightharpoonup> 'v))" where
  "set_inner d k j v = d(k \<mapsto> (inner_dict d k)(j \<mapsto> v))"

definition update_course_slots :: "SchedulerState \<Rightarrow> string \<Rightarrow> slot_key \<Rightarrow> SchedulerState" where
  "update_course_slots st code sk =
     (let cs = setdefault_empty (course_slots st) code;
          n = (case inner_dict cs code sk of None \<Rightarrow> 0 | Some c \<Rightarrow> c)
      in st\<lparr> course_slots := set_inner cs code sk (n + 1) \<rparr>)"

definition update_level_slots ::
  "SchedulerState \<Rightarrow> string \<times> int \<Rightarrow> Day \<Rightarrow> ptime \<Rightarrow> SchedulerState" where
  "update_level_slots st level_key d t =
     (let ls = setdefault_empty (level_slots st) level_key;
          day_times = (case inner_dict ls level_key d of None \<Rightarrow> [] | Some ts \<Rightarrow> ts)
      in st\<lparr> level_slots := set_inner ls level_key d (day_times @ [t]) \<rparr>)"

definition update_study_plan_slots ::
  "SchedulerState \<Rightarrow> string \<times> Day \<times> ptime \<Rightarrow> string \<Rightarrow> SchedulerState" where
  "update_study_plan_slots st study_plan_key bid =
     (let ids = (case study_plan_slots st study_plan_key of None \<Rightarrow> [] | Some l \<Rightarrow> l)
      in st\<lparr> study_plan_slots := (study_plan_slots st)(study_plan_key \<mapsto> ids @ [bid]) \<rparr>)"

text \<open>
  \<^verbatim>\<open>_add_to_state\<close> mutates the manager step by step and may raise in the middle. The
  model returns the outcome together with the manager as it stands when the method is
  left, so that a raise after a mutation leaves the partial mutation visible to the
  caller.
\<close>

definition add_to_state ::
  "ConstraintManager \<Rightarrow> string \<Rightarrow> Assignment \<Rightarrow> (error + unit) \<times> ConstraintManager" where
  "add_to_state cm bid a =
     (case verify_no_conflicts_before_commit cm a of
        Inl e \<Rightarrow> (Inl e, cm)
      | Inr u \<Rightarrow>
          (let b = block a;
               sk = (day (time_slot a), start_time (time_slot a));
               rk = get_room_key (room a)
           in if bid \<in> set (dict_keys (current_assignments cm)) then (Inl BlockAlreadyAssigned, cm)
              else
                (let cm1 = cm\<lparr> current_assignments := dict_set (current_assignments cm) bid a \<rparr>;
                     st1 = (state cm1)\<lparr> room_bookings := setdefault_empty (room_bookings (state cm1)) rk \<rparr>
                 in if inner_dict (room_bookings st1) rk sk \<noteq> None
                    then (Inl RoomConflict, cm1\<lparr> state := st1 \<rparr>)
                    else
                      (let st2 = st1\<lparr> room_bookings := set_inner (room_bookings st1) rk sk bid \<rparr>;
                           sid = staff_id (staff_member b);
                           st3 = st2\<lparr> staff_bookings := setdefault_empty (staff_bookings st2) sid \<rparr>
                       in if inner_dict (staff_bookings st3) sid sk \<noteq> None
                          then (Inl StaffConflict, cm1\<lparr> state := st3 \<rparr>)
                          else
                            (let st4 = st3\<lparr> staff_bookings := set_inner (staff_bookings st3) sid sk bid \<rparr>;
                                 st5 = update_course_slots st4 (ca_course_code (course_object b)) sk;
                                 st6 = update_level_slots st5 (academic_list b, academic_level b)
                                         (day (time_slot a)) (start_time (time_slot a));
                                 st7 = update_study_plan_slots st6
                                         (academic_list b, day (time_slot a), start_time (time_slot a)) bid
                             in (Inr (), cm1\<lparr> state := st7 \<rparr>))))))"

text \<open>
  \<^verbatim>\<open>make_assignment\<close>: the snapshot is taken first; a block id that is already assigned
  returns False at once; an exception of \<^verbatim>\<open>_add_to_state\<close> restores the snapshot.
\<close>

definition make_assignment ::
  "ConstraintManager \<Rightarrow> string \<Rightarrow> Assignment \<Rightarrow> bool \<times> ConstraintManager" where
  "make_assignment cm bid a =
     (let current_state_snapshot = state cm;
          current_assignments_snapshot = current_assignments cm
      in if bid \<in> set (dict_keys (current_assignments cm)) then (False, cm)
         else
           (case add_to_state cm bid a of
              (Inr u, cm') \<Rightarrow> (True, cm')
            | (Inl e, cm') \<Rightarrow>
                (False, cm'\<lparr> state := current_state_snapshot,
                             current_assignments := current_assignments_snapshot \<rparr>)))"

subsection \<open>Hard constraints\<close>

definition check_room_booking :: "ConstraintManager \<Rightarrow> Block \<Rightarrow> TimePreference \<Rightarrow> Room \<Rightarrow> bool" where
  "check_room_booking cm b slot r =
     (case room_bookings (state cm) (get_room_key r) of
        None \<Rightarrow> True
      | Some booked \<Rightarrow> booked (day slot, start_time slot) = None)"

definition check_staff_booking :: "ConstraintManager \<Rightarrow> Block \<Rightarrow> TimePreference \<Rightarrow> Room \<Rightarrow> bool" where
  "check_staff_booking cm b slot r =
     (case staff_bookings (state cm) (staff_id (staff_member b)) of
        None \<Rightarrow> True
      | Some booked \<Rightarrow> booked (day slot, start_time slot) = None)"

fun availability_scan :: "TimePreference \<Rightarrow> TimePreference list \<Rightarrow> bool" where
  "availability_scan slot [] = False"
| "availability_scan slot (pref # rest) =
     (if day pref = day slot \<and> start_time pref \<le> start_time slot \<and> end_time pref \<ge> end_time slot
      then True else availability_scan slot rest)"

definition check_room_availability :: "ConstraintManager \<Rightarrow> Block \<Rightarrow> TimePreference \<Rightarrow> Room \<Rightarrow> bool" where
  "check_room_availability cm b slot r = availability_scan slot (availability r)"

text \<open>The inner loop of \<^verbatim>\<open>check_single_group_conflict\<close>: the first assignment whose block has the id.\<close>

fun find_block :: "string \<Rightarrow> Assignment list \<Rightarrow> Block option" where
  "find_block bid [] = None"
| "find_block bid (a # rest) = (if block_id (block a) = bid then Some (block a) else find_block bid rest)"

fun collect_existing_blocks :: "string list \<Rightarrow> Assignment list \<Rightarrow> Block list" where
  "collect_existing_blocks [] vals = []"
| "collect_existing_blocks (bid # ids) vals =
     (case find_block bid vals of
        None \<Rightarrow> collect_existing_blocks ids vals
      | Some b \<Rightarrow> b # collect_existing_blocks ids vals)"

fun existing_scan :: "Block \<Rightarrow> Block list \<Rightarrow> bool" where
  "existing_scan b [] = True"
| "existing_scan b (existing_block # rest) =
     (if is_single_group_course existing_block then False
      else if course_code existing_block = ca_course_code (course_object b)
              \<and> (total_groups b = 1 \<or> total_groups existing_block = 1) then False
      else existing_scan b rest)"

definition check_single_group_conflict ::
  "ConstraintManager \<Rightarrow> Block \<Rightarrow> TimePreference \<Rightarrow> Room \<Rightarrow> bool" where
  "check_single_group_conflict cm b slot r =
     (case study_plan_slots (state cm) (academic_list b, day slot, start_time slot) of
        None \<Rightarrow> True
      | Some ids \<Rightarrow>
          (let existing_blocks = collect_existing_blocks ids (dict_values (current_assignments cm))
           in if is_single_group_course b then False else existing_scan b existing_blocks))"

definition check_lab_requirements :: "ConstraintManager \<Rightarrow> Block \<Rightarrow> TimePreference \<Rightarrow> Room \<Rightarrow> bool" where
  "check_lab_requirements cm b slot r =
     (if required_room_type b = ''lab'' then
        (if \<not> isinstance_Lab r then False
         else if preferred_rooms b \<noteq> [] then r \<in> set (preferred_rooms b)
         else if \<not> room_used_in_non_specialist_courses r then False
         else True)
      else if required_room_type b = ''hall'' \<and> \<not> isinstance_Hall r then False
      else True)"

text \<open>
  \<^verbatim>\<open>can_assign\<close> runs the hard constraints in the order of \<^verbatim>\<open>setup_constraints\<close> and
  returns the description of the first one that fails.
\<close>

definition can_assign ::
  "ConstraintManager \<Rightarrow> Block \<Rightarrow> TimePreference \<Rightarrow> Room \<Rightarrow> bool \<times> string option" where
  "can_assign cm b slot r =
     (if \<not> check_room_booking cm b slot r then (False, Some ''No double room booking'')
      else if \<not> check_staff_booking cm b slot r then (False, Some ''No double staff booking'')
      else if \<not> check_room_availability cm b slot r
        then (False, Some ''Room must be available in the given time slot'')
      else if \<not> check_single_group_conflict cm b slot r
        then (False, Some ''Single group courses cannot have parallel sessions'')
      else if \<not> check_lab_requirements cm b slot r
        then (False, Some ''Lab specialization and preferences must be met'')
      else (True, None))"

subsection \<open>Soft constraints\<close>

fun preference_scan :: "TimePreference \<Rightarrow> TimePreference list \<Rightarrow> real" where
  "preference_scan slot [] = 0"
| "preference_scan slot (pref # rest) =
     (if day pref = day slot \<and> start_time pref = start_time slot then 1
      else preference_scan slot rest)"

definition evaluate_lecturer_preferences ::
  "ConstraintManager \<Rightarrow> Block \<Rightarrow> TimePreference \<Rightarrow> Room \<Rightarrow> real" where
  "evaluate_lecturer_preferences cm b slot r =
     (if \<not> isinstance_Lecturer (staff_member b) then 0
      else preference_scan slot (timing_preferences (staff_member b)))"

definition evaluate_ta_preferences ::
  "ConstraintManager \<Rightarrow> Block \<Rightarrow> TimePreference \<Rightarrow> Room \<Rightarrow> real" where
  "evaluate_ta_preferences cm b slot r =
     (if \<not> isinstance_TeachingAssistant (staff_member b) then 0
      else preference_scan slot (timing_preferences (staff_member b)))"

text \<open>The loop over \<^verbatim>\<open>range(len(day_slots) - 1)\<close> of \<^verbatim>\<open>evaluate_gaps\<close>.\<close>

fun gap_scan :: "ptime list \<Rightarrow> int \<Rightarrow> int" where
  "gap_scan (t1 # t2 # rest) max_gap =
     gap_scan (t2 # rest) (max max_gap (int (hour t2) - int (hour t1)))"
| "gap_scan ts max_gap = max_gap"

definition evaluate_gaps :: "ConstraintManager \<Rightarrow> Block \<Rightarrow> TimePreference \<Rightarrow> Room \<Rightarrow> real" where
  "evaluate_gaps cm b slot r =
     (case level_slots (state cm) (academic_list b, academic_level b) of
        None \<Rightarrow> 1
      | Some per_day \<Rightarrow>
          (case per_day (day slot) of
             None \<Rightarrow> 1
           | Some day_times \<Rightarrow>
               (let day_slots = sort day_times;
                    max_gap0 = gap_scan day_slots 0;
                    max_gap =
                      (case day_slots of
                         [] \<Rightarrow> max_gap0
                       | t # ts \<Rightarrow>
                           (let before_gap =
                                  \<bar>int (hour (start_time slot)) - int (fold min (map hour ts) (hour t))\<bar>;
                                after_gap =
                                  \<bar>int (hour (start_time slot)) - int (fold max (map hour ts) (hour t))\<bar>
                            in max (max max_gap0 before_gap) after_gap))
                in if max_gap \<le> 2 then 1 else if max_gap \<le> 4 then 0.5 else 0)))"

text \<open>
  \<^verbatim>\<open>required_capacity / room.capacity\<close>: the capacity of a hall or lab is positive
  (their \<^verbatim>\<open>__post_init__\<close> raise otherwise), so the division never raises.
\<close>

definition evaluate_room_capacity ::
  "ConstraintManager \<Rightarrow> Block \<Rightarrow> TimePreference \<Rightarrow> Room \<Rightarrow> real" where
  "evaluate_room_capacity cm b slot r =
     (let required_capacity = student_count b;
          utilization = real_of_int required_capacity / real_of_int (capacity r)
      in if 0.5 \<le> utilization \<and> utilization \<le> 0.9 then 1
         else if 0.3 \<le> utilization \<and> utilization < 0.5 then 0.7
         else if 0.9 < utilization \<and> utilization \<le> 1 then 0.7
         else if utilization < 0.3 then 0.3
         else 0)"

definition evaluate_soft_constraints ::
  "ConstraintManager \<Rightarrow> Block \<Rightarrow> TimePreference \<Rightarrow> Room \<Rightarrow> real" where
  "evaluate_soft_constraints cm b slot r =
     0 + evaluate_lecturer_preferences cm b slot r * 5
       + evaluate_ta_preferences cm b slot r * 3
       + evaluate_gaps cm b slot r * 2
       + evaluate_room_capacity cm b slot r * 1.5"

section \<open>Resource manager (managers/resource_manager.py, models/time_preferences.py)\<close>

record ResourceManager =
  halls :: "(int \<times> Hall) list"
  labs :: "(int \<times> Lab) list"
  time_slot_duration :: int
  break_duration :: int
  time_slots :: "TimePreference list"

text \<open>
  The \<^verbatim>\<open>while\<close> loop of \<^verbatim>\<open>_generate_time_slots\<close> for one day. It does not terminate for
  every duration (a duration of 0 without a break never advances), so it is a partial
  function: \<open>None\<close> is the run that never returns.
\<close>

partial_function (option) generate_day_slots ::
  "int \<Rightarrow> int \<Rightarrow> Day \<Rightarrow> ptime \<Rightarrow> TimePreference list \<Rightarrow> (error + TimePreference list) option" where
  "generate_day_slots dur brk d current_time slots =
     (if int (hour current_time) + dur \<le> 19 then
        (if d = MONDAY \<and> (hour current_time = 13 \<or> hour current_time = 14) then
           (case mk_time (int (hour current_time) + 1) 0 of
              Inl e \<Rightarrow> Some (Inl e)
            | Inr t \<Rightarrow> generate_day_slots dur brk d t slots)
         else
           (case mk_time (int (hour current_time) + dur) 0 of
              Inl e \<Rightarrow> Some (Inl e)
            | Inr slot_end \<Rightarrow>
               (case mk_time (if brk > 0 then int (hour current_time) + dur + brk
                              else int (hour current_time) + dur) 0 of
                  Inl e \<Rightarrow> Some (Inl e)
                | Inr next_time \<Rightarrow>
                    generate_day_slots dur brk d next_time
                      (slots @ [TimePreference d current_time slot_end]))))
      else Some (Inr slots))"

fun generate_days ::
  "int \<Rightarrow> int \<Rightarrow> Day list \<Rightarrow> TimePreference list \<Rightarrow> (error + TimePreference list) option" where
  "generate_days dur brk [] slots = Some (Inr slots)"
| "generate_days dur brk (d # ds) slots =
     (case generate_day_slots dur brk d (9, 0) slots of
        None \<Rightarrow> None
      | Some (Inl e) \<Rightarrow> Some (Inl e)
      | Some (Inr slots') \<Rightarrow> generate_days dur brk ds slots')"

definition working_days :: "Day list" where
  "working_days = [SUNDAY, MONDAY, TUESDAY, WEDNESDAY, THURSDAY]"

definition generate_time_slots :: "int \<Rightarrow> int \<Rightarrow> (error + TimePreference list) option" where
  "generate_time_slots dur brk = generate_days dur brk working_days []"

text \<open>\<^verbatim>\<open>{hall.id: hall for hall in halls}\<close>\<close>

definition dict_by :: "('v \<Rightarrow> 'k) \<Rightarrow> 'v list \<Rightarrow> ('k \<times> 'v) list" where
  "dict_by key xs = fold (\<lambda>x d. dict_set d (key x) x) xs []"

text \<open>The constructor, with its defaults \<^verbatim>\<open>time_slot_duration=2, break_duration=0\<close> as arguments.\<close>

definition new_ResourceManager ::
  "Hall list \<Rightarrow> Lab list \<Rightarrow> int \<Rightarrow> int \<Rightarrow> (error + ResourceManager) option" where
  "new_ResourceManager hs ls dur brk =
     (case generate_time_slots dur brk of
        None \<Rightarrow> None
      | Some (Inl e) \<Rightarrow> Some (Inl e)
      | Some (Inr slots) \<Rightarrow>
          Some (Inr \<lparr> halls = dict_by hall_id hs, labs = dict_by lab_id ls,
                      time_slot_duration = dur, break_duration = brk, time_slots = slots \<rparr>))"

text \<open>\<^verbatim>\<open>BaseAvailability.generate_base_availability\<close>: the loop for one day, slot duration 2.\<close>

function base_day_slots :: "Day \<Rightarrow> ptime \<Rightarrow> TimePreference list \<Rightarrow> error + TimePreference list" where
  "base_day_slots d current_time avail =
     (if int (hour current_time) + 2 \<le> 19 then
        (if d = MONDAY \<and> hour current_time = 13 \<or> (d = MONDAY \<and> hour current_time = 12) then
           (case mk_time (int (hour current_time) + 2) 0 of
              Inl e \<Rightarrow> Inl e
            | Inr t \<Rightarrow> base_day_slots d t avail)
         else
           (case mk_time (int (hour current_time) + 2) 0 of
              Inl e \<Rightarrow> Inl e
            | Inr slot_end \<Rightarrow>
               (case mk_time (int (hour current_time) + 2) 0 of
                  Inl e \<Rightarrow> Inl e
                | Inr next_time \<Rightarrow>
                    base_day_slots d next_time (avail @ [TimePreference d current_time slot_end]))))
      else Inr avail)"
  by pat_completeness auto
termination
  by (relation "measure (\<lambda>(d, t, avail). 20 - hour t)")
     (auto simp: mk_time_def hour_def split: if_splits)

fun base_days :: "Day list \<Rightarrow> TimePreference list \<Rightarrow> error + TimePreference list" where
  "base_days [] avail = Inr avail"
| "base_days (d # ds) avail =
     (case base_day_slots d (9, 0) avail of
        Inl e \<Rightarrow> Inl e
      | Inr avail' \<Rightarrow> base_days ds avail')"

definition generate_base_availability :: "error + TimePreference list" where
  "generate_base_availability = base_days working_days []"

subsection \<open>Candidate rooms\<close>

definition get_suitable_rooms :: "ResourceManager \<Rightarrow> Block \<Rightarrow> real \<Rightarrow> Room list" where
  "get_suitable_rooms rm b preferred_capacity_ratio =
     (let required_capacity = student_count b;
          suitable_rooms =
            (if required_room_type b = ''lab'' then
               (if preferred_rooms b \<noteq> [] then
                  filter (\<lambda>lab. real_of_int (capacity lab)
                                  \<ge> real_of_int required_capacity * preferred_capacity_ratio)
                    (preferred_rooms b)
                else
                  map IsLab
                    (filter (\<lambda>lab. used_in_non_specialist_courses lab
                                    \<and> real_of_int (lab_capacity lab)
                                        \<ge> real_of_int required_capacity * preferred_capacity_ratio)
                       (dict_values (labs rm))))
             else
               map IsHall
                 (filter (\<lambda>hall. real_of_int (hall_capacity hall)
                                  \<ge> real_of_int required_capacity * preferred_capacity_ratio)
                    (dict_values (halls rm))))
      in sort_key (\<lambda>r. \<bar>capacity r - required_capacity\<bar>) suitable_rooms)"

definition default_capacity_ratio :: real where
  "default_capacity_ratio = 0.8"

subsection \<open>Candidate slots\<close>

text \<open>
  \<^verbatim>\<open>sorted(xs, key=f, reverse=True)\<close> is stable: elements with equal keys keep their
  order. It is the stable ascending sort of the reversed list, reversed.
\<close>

definition sorted_reverse :: "('a \<Rightarrow> 'k::linorder) \<Rightarrow> 'a list \<Rightarrow> 'a list" where
  "sorted_reverse key xs = rev (sort_key key (rev xs))"

text \<open>The final loop: \<^verbatim>\<open>time(start_time.hour + duration, 0)\<close> may raise.\<close>

fun to_time_preferences :: "int \<Rightarrow> slot_key list \<Rightarrow> error + TimePreference list" where
  "to_time_preferences dur [] = Inr []"
| "to_time_preferences dur ((d, start) # rest) =
     (case mk_time (int (hour start) + dur) 0 of
        Inl e \<Rightarrow> Inl e
      | Inr end_t \<Rightarrow>
          (case to_time_preferences dur rest of
             Inl e \<Rightarrow> Inl e
           | Inr slots \<Rightarrow> Inr (TimePreference d start end_t # slots)))"

text \<open>
  The slot tuples are held in Python sets. A set built from a list is the list without
  repetitions; the order in which Python iterates a set is not given by the program (it
  follows the hashes of the elements, which for enum members and times change from one
  interpreter process to the next), so it is the parameter \<open>set_iter\<close>: the function
  that lists the elements of a set in the order of iteration.
\<close>

definition get_available_slots ::
  "(slot_key list \<Rightarrow> slot_key list) \<Rightarrow> ResourceManager \<Rightarrow> Block \<Rightarrow> Room \<Rightarrow> assignments
     \<Rightarrow> error + TimePreference list" where
  "get_available_slots set_iter rm b r existing_assignments =
     (let base_slots = remdups (map slot_key_of (availability r));
          used_slots =
            map (\<lambda>a. slot_key_of (time_slot a))
              (filter (\<lambda>a. room a = r) (dict_values existing_assignments));
          staff_slots = map slot_key_of (timing_preferences (staff_member b));
          available_slot_tuples0 = filter (\<lambda>x. x \<notin> set used_slots) base_slots;
          available_slot_tuples =
            (if isinstance_TeachingAssistant (staff_member b) then
               sorted_reverse (\<lambda>x. x \<in> set staff_slots) (set_iter available_slot_tuples0)
             else set_iter (filter (\<lambda>x. x \<in> set staff_slots) available_slot_tuples0))
      in to_time_preferences (time_slot_duration rm) available_slot_tuples)"

text \<open>An iteration order lists every element of the set once.\<close>

definition iteration_order :: "(slot_key list \<Rightarrow> slot_key list) \<Rightarrow> bool" where
  "iteration_order set_iter = (\<forall>xs. mset (set_iter xs) = mset xs)"

definition insertion_order :: "slot_key list \<Rightarrow> slot_key list" where
  "insertion_order xs = xs"


section \<open>Scheduling engine (scheduler.py)\<close>

subsection \<open>Block expansion\<close>

text \<open>Decimal rendering of an integer inside an f-string.\<close>

fun str_nat :: "nat \<Rightarrow> string" where
  "str_nat n =
     (if n < 10 then [''0123456789'' ! n]
      else str_nat (n div 10) @ [''0123456789'' ! (n mod 10)])"

definition str_int :: "int \<Rightarrow> string" where
  "str_int i = (if i < 0 then CHR ''-'' # str_nat (nat (- i)) else str_nat (nat i))"

definition lecture_block :: "CourseAssignment \<Rightarrow> StudyPlan \<Rightarrow> StaffInfo \<Rightarrow> int \<Rightarrow> Block" where
  "lecture_block course study_plan lecturer lecture_group_count =
     Block (''L_'' @ ca_course_code course @ ''_'' @ str_int (info_id lecturer) @ ''_''
              @ str_int lecture_group_count)
       (ca_course_code course) course LECTURE (Lecturer lecturer)
       (expected_students study_plan div lecture_groups course)
       ''hall'' lecture_group_count (lecture_groups course) (lecture_groups course = 1)
       (sp_academic_list study_plan) (sp_academic_level study_plan) True []"

text \<open>
  The loop over \<^verbatim>\<open>course.lecturers\<close>. A division by a zero group count raises inside the
  \<^verbatim>\<open>try\<close> before the first block of the lecturer is built, and the handler goes on with
  the next lecturer.
\<close>

fun lecture_blocks :: "CourseAssignment \<Rightarrow> StudyPlan \<Rightarrow> (StaffInfo \<times> int) list \<Rightarrow> int \<Rightarrow> Block list" where
  "lecture_blocks course study_plan [] lecture_group_count = []"
| "lecture_blocks course study_plan ((lecturer, num_groups) # rest) lecture_group_count =
     (if lecture_groups course = 0 then lecture_blocks course study_plan rest lecture_group_count
      else
        map (\<lambda>group_idx. lecture_block course study_plan lecturer (lecture_group_count + int group_idx))
          [0..<nat num_groups]
        @ lecture_blocks course study_plan rest (lecture_group_count + int (nat num_groups)))"

definition lab_block :: "CourseAssignment \<Rightarrow> StudyPlan \<Rightarrow> StaffInfo \<Rightarrow> int \<Rightarrow> Block" where
  "lab_block course study_plan ta lab_group_count =
     Block (''P_'' @ ca_course_code course @ ''_'' @ str_int (info_id ta) @ ''_''
              @ str_int lab_group_count)
       (ca_course_code course) course LAB (TeachingAssistant ta)
       (expected_students study_plan div lab_groups course)
       (if practical_in_lab course then ''lab'' else ''hall'')
       lab_group_count (lab_groups course) (lab_groups course = 1)
       (sp_academic_list study_plan) (sp_academic_level study_plan) (practical_in_lab course)
       (map IsLab (preferred_labs course))"

fun lab_blocks :: "CourseAssignment \<Rightarrow> StudyPlan \<Rightarrow> (StaffInfo \<times> int) list \<Rightarrow> int \<Rightarrow> Block list" where
  "lab_blocks course study_plan [] lab_group_count = []"
| "lab_blocks course study_plan ((ta, num_groups) # rest) lab_group_count =
     map (\<lambda>group_idx. lab_block course study_plan ta (lab_group_count + int group_idx))
       [0..<nat num_groups]
     @ lab_blocks course study_plan rest (lab_group_count + int (nat num_groups))"

definition course_blocks :: "CourseAssignment \<Rightarrow> StudyPlan \<Rightarrow> Block list" where
  "course_blocks course study_plan =
     lecture_blocks course study_plan (lecturers course) 1
     @ (if lab_groups course \<noteq> 0 \<and> lab_groups course > 0 then
          (if teaching_assistants course = [] then []
           else lab_blocks course study_plan (teaching_assistants course) 1)
        else [])"

text \<open>\<^verbatim>\<open>study_plan_mapping[i]\<close> raises KeyError outside every \<^verbatim>\<open>try\<close>.\<close>

fun convert_loop :: "(nat \<rightharpoonup> StudyPlan) \<Rightarrow> nat \<Rightarrow> CourseAssignment list \<Rightarrow> error + Block list" where
  "convert_loop study_plan_mapping i [] = Inr []"
| "convert_loop study_plan_mapping i (course # rest) =
     (case study_plan_mapping i of
        None \<Rightarrow> Inl MissingStudyPlan
      | Some study_plan \<Rightarrow>
          (case convert_loop study_plan_mapping (Suc i) rest of
             Inl e \<Rightarrow> Inl e
           | Inr blocks \<Rightarrow> Inr (course_blocks course study_plan @ blocks)))"

definition convert_course_assignments_to_blocks ::
  "CourseAssignment list \<Rightarrow> (nat \<rightharpoonup> StudyPlan) \<Rightarrow> error + Block list" where
  "convert_course_assignments_to_blocks course_assignments study_plan_mapping =
     convert_loop study_plan_mapping 0 course_assignments"

subsection \<open>Priority order\<close>

definition calculate_block_priority :: "Block \<Rightarrow> real" where
  "calculate_block_priority b =
     0 + (if preferred_rooms b \<noteq> [] then 10 else 0)
       + (if is_single_group_course b then 20 else 0)
       + (if isinstance_Lecturer (staff_member b) then 15 else 0)
       + (if required_room_type b = ''lab'' then 8 else 0)
       + real_of_int (student_count b) / 100"

fun total_available_slots ::
  "(slot_key list \<Rightarrow> slot_key list) \<Rightarrow> ResourceManager \<Rightarrow> Block \<Rightarrow> assignments \<Rightarrow> Room list
     \<Rightarrow> int \<Rightarrow> error + int" where
  "total_available_slots set_iter rm b cur [] n = Inr n"
| "total_available_slots set_iter rm b cur (r # rooms) n =
     (case get_available_slots set_iter rm b r cur of
        Inl e \<Rightarrow> Inl e
      | Inr available_slots \<Rightarrow>
          total_available_slots set_iter rm b cur rooms (n + int (length available_slots)))"

definition get_block_score ::
  "(slot_key list \<Rightarrow> slot_key list) \<Rightarrow> ResourceManager \<Rightarrow> ConstraintManager \<Rightarrow> Block
     \<Rightarrow> error + (bool \<times> int \<times> int \<times> real)" where
  "get_block_score set_iter rm cm b =
     (let cur = get_all_assignments cm;
          possible_rooms = get_suitable_rooms rm b default_capacity_ratio
      in case total_available_slots set_iter rm b cur possible_rooms 0 of
           Inl e \<Rightarrow> Inl e
         | Inr total_slots \<Rightarrow>
             Inr (is_single_group_course b, - int (length possible_rooms), - total_slots,
                  calculate_block_priority b))"

text \<open>\<^verbatim>\<open>sorted\<close> computes the key of every element, in order, before it sorts.\<close>

fun block_scores ::
  "(slot_key list \<Rightarrow> slot_key list) \<Rightarrow> ResourceManager \<Rightarrow> ConstraintManager \<Rightarrow> Block list
     \<Rightarrow> error + ((bool \<times> int \<times> int \<times> real) \<times> Block) list" where
  "block_scores set_iter rm cm [] = Inr []"
| "block_scores set_iter rm cm (b # bs) =
     (case get_block_score set_iter rm cm b of
        Inl e \<Rightarrow> Inl e
      | Inr score \<Rightarrow>
          (case block_scores set_iter rm cm bs of
             Inl e \<Rightarrow> Inl e
           | Inr keyed \<Rightarrow> Inr ((score, b) # keyed)))"

definition sort_blocks_by_priority ::
  "(slot_key list \<Rightarrow> slot_key list) \<Rightarrow> ResourceManager \<Rightarrow> ConstraintManager \<Rightarrow> Block list
     \<Rightarrow> error + Block list" where
  "sort_blocks_by_priority set_iter rm cm blocks =
     (case block_scores set_iter rm cm blocks of
        Inl e \<Rightarrow> Inl e
      | Inr keyed \<Rightarrow> Inr (map snd (sorted_reverse fst keyed)))"

subsection \<open>Placement of one block\<close>

fun first_valid_slot ::
  "ConstraintManager \<Rightarrow> Block \<Rightarrow> Room \<Rightarrow> TimePreference list \<Rightarrow> Assignment option" where
  "first_valid_slot cm b r [] = None"
| "first_valid_slot cm b r (slot # rest) =
     (if fst (can_assign cm b slot r) then Some (Assignment b slot r)
      else first_valid_slot cm b r rest)"

fun schedule_in_rooms ::
  "(slot_key list \<Rightarrow> slot_key list) \<Rightarrow> ResourceManager \<Rightarrow> ConstraintManager \<Rightarrow> Block \<Rightarrow> Room list
     \<Rightarrow> error + Assignment option" where
  "schedule_in_rooms set_iter rm cm b [] = Inr None"
| "schedule_in_rooms set_iter rm cm b (r # rooms) =
     (case get_available_slots set_iter rm b r (get_all_assignments cm) of
        Inl e \<Rightarrow> Inl e
      | Inr available_slots \<Rightarrow>
          (case first_valid_slot cm b r available_slots of
             Some a \<Rightarrow> Inr (Some a)
           | None \<Rightarrow> schedule_in_rooms set_iter rm cm b rooms))"

definition schedule_single_block ::
  "(slot_key list \<Rightarrow> slot_key list) \<Rightarrow> ResourceManager \<Rightarrow> ConstraintManager \<Rightarrow> Block
     \<Rightarrow> error + Assignment option" where
  "schedule_single_block set_iter rm cm b =
     schedule_in_rooms set_iter rm cm b (get_suitable_rooms rm b default_capacity_ratio)"

subsection \<open>One attempt\<close>

fun place_blocks ::
  "(slot_key list \<Rightarrow> slot_key list) \<Rightarrow> ResourceManager \<Rightarrow> ConstraintManager \<Rightarrow> nat \<Rightarrow> Block list
     \<Rightarrow> error + (nat \<times> ConstraintManager)" where
  "place_blocks set_iter rm cm scheduled_count [] = Inr (scheduled_count, cm)"
| "place_blocks set_iter rm cm scheduled_count (b # bs) =
     (case schedule_single_block set_iter rm cm b of
        Inl e \<Rightarrow> Inl e
      | Inr None \<Rightarrow> place_blocks set_iter rm cm scheduled_count bs
      | Inr (Some a) \<Rightarrow>
          (case make_assignment cm (block_id b) a of
             (True, cm') \<Rightarrow> place_blocks set_iter rm cm' (scheduled_count + 1) bs
           | (False, cm') \<Rightarrow> place_blocks set_iter rm cm' scheduled_count bs))"

fun sum_scores :: "ConstraintManager \<Rightarrow> Assignment list \<Rightarrow> real \<Rightarrow> real" where
  "sum_scores cm [] total_score = total_score"
| "sum_scores cm (a # rest) total_score =
     sum_scores cm rest (total_score + evaluate_soft_constraints cm (block a) (time_slot a) (room a))"

definition evaluate_schedule :: "ConstraintManager \<Rightarrow> assignments \<Rightarrow> real" where
  "evaluate_schedule cm xs =
     (if xs = [] then 0 else sum_scores cm (dict_values xs) 0 / real (length xs))"

text \<open>
  The body of the attempt loop up to the evaluation: fresh state, priority order,
  placement, score. It yields the assignments of the attempt, its score and the number
  of blocks it placed.
\<close>

definition run_attempt ::
  "(slot_key list \<Rightarrow> slot_key list) \<Rightarrow> ResourceManager \<Rightarrow> ConstraintManager \<Rightarrow> Block list
     \<Rightarrow> error + (assignments \<times> real \<times> nat)" where
  "run_attempt set_iter rm cm blocks =
     (let cm0 = initialize_fresh_state cm
      in case sort_blocks_by_priority set_iter rm cm0 blocks of
           Inl e \<Rightarrow> Inl e
         | Inr sorted_blocks \<Rightarrow>
             (case place_blocks set_iter rm cm0 0 sorted_blocks of
                Inl e \<Rightarrow> Inl e
              | Inr (scheduled_count, cm1) \<Rightarrow>
                  (let cur = get_all_assignments cm1
                   in Inr (cur, evaluate_schedule cm1 cur, scheduled_count))))"

subsection \<open>The attempt loop and the best attempt\<close>

text \<open>
  \<^verbatim>\<open>for attempt in range(max_attempts)\<close>, with the body of an attempt as the argument
  \<open>body\<close>; \<open>remaining\<close> counts the attempts still to run, \<open>attempt\<close> is the loop
  variable and \<open>best\<close> is (best_assignments, best_score, best_count).
\<close>

fun attempt_loop ::
  "(nat \<Rightarrow> error + (assignments \<times> real \<times> nat)) \<Rightarrow> nat \<Rightarrow> nat \<Rightarrow> nat
     \<Rightarrow> assignments \<times> real \<times> nat \<Rightarrow> error + (assignments \<times> real \<times> nat)" where
  "attempt_loop body total_blocks 0 attempt best = Inr best"
| "attempt_loop body total_blocks (Suc remaining) attempt (best_assignments, best_score, best_count) =
     (case body attempt of
        Inl e \<Rightarrow> Inl e
      | Inr (cur, attempt_score, scheduled_count) \<Rightarrow>
          (let best =
                 (if scheduled_count > best_count
                     \<or> (scheduled_count = best_count \<and> attempt_score > best_score)
                  then (cur, attempt_score, scheduled_count)
                  else (best_assignments, best_score, best_count))
           in if scheduled_count = total_blocks \<and> attempt_score \<ge> 0.95 then Inr best
              else attempt_loop body total_blocks remaining (Suc attempt) best))"

definition best_of_attempts ::
  "(nat \<Rightarrow> error + (assignments \<times> real \<times> nat)) \<Rightarrow> nat \<Rightarrow> nat \<Rightarrow> error + assignments" where
  "best_of_attempts body total_blocks max_attempts =
     (case attempt_loop body total_blocks max_attempts 0 ([], 0, 0) of
        Inl e \<Rightarrow> Inl e
      | Inr (best_assignments, best_score, best_count) \<Rightarrow>
          (if best_assignments = [] then Inl NoValidSchedule else Inr best_assignments))"

text \<open>
  \<^verbatim>\<open>schedule_blocks\<close>. Every attempt starts from \<^verbatim>\<open>initialize_fresh_state\<close>, so the state
  the manager holds on entry is the state every attempt overwrites.
\<close>

definition schedule_blocks ::
  "(slot_key list \<Rightarrow> slot_key list) \<Rightarrow> ResourceManager \<Rightarrow> ConstraintManager
     \<Rightarrow> CourseAssignment list \<Rightarrow> (nat \<rightharpoonup> StudyPlan) \<Rightarrow> nat \<Rightarrow> error + assignments" where
  "schedule_blocks set_iter rm cm course_assignments study_plan_mapping max_attempts =
     (case convert_course_assignments_to_blocks course_assignments study_plan_mapping of
        Inl e \<Rightarrow> Inl e
      | Inr blocks \<Rightarrow>
          best_of_attempts (\<lambda>attempt. run_attempt set_iter rm cm blocks) (length blocks) max_attempts)"

section \<open>Properties of states and schedules\<close>

text \<open>What a successful \<^verbatim>\<open>make_assignment\<close> leaves behind: the new entry and all five indices.\<close>

definition committed :: "ConstraintManager \<Rightarrow> string \<Rightarrow> Assignment \<Rightarrow> ConstraintManager \<Rightarrow> bool" where
  "committed cm bid a cm' =
     (let b = block a; sk = (day (time_slot a), start_time (time_slot a)) in
      current_assignments cm' = current_assignments cm @ [(bid, a)]
      \<and> room_bookings (state cm') = set_inner (room_bookings (state cm)) (get_room_key (room a)) sk bid
      \<and> staff_bookings (state cm') = set_inner (staff_bookings (state cm)) (staff_id (staff_member b)) sk bid
      \<and> course_slots (state cm') =
          set_inner (course_slots (state cm)) (ca_course_code (course_object b)) sk
            ((case inner_dict (course_slots (state cm)) (ca_course_code (course_object b)) sk of
                None \<Rightarrow> 0 | Some c \<Rightarrow> c) + 1)
      \<and> level_slots (state cm') =
          set_inner (level_slots (state cm)) (academic_list b, academic_level b) (day (time_slot a))
            ((case inner_dict (level_slots (state cm)) (academic_list b, academic_level b) (day (time_slot a)) of
                None \<Rightarrow> [] | Some ts \<Rightarrow> ts) @ [start_time (time_slot a)])
      \<and> study_plan_slots (state cm') =
          (study_plan_slots (state cm))
            ((academic_list b, day (time_slot a), start_time (time_slot a)) \<mapsto>
              (case study_plan_slots (state cm) (academic_list b, day (time_slot a), start_time (time_slot a)) of
                 None \<Rightarrow> [] | Some l \<Rightarrow> l) @ [bid]))"

text \<open>An assignment already stored at the slot of \<open>a\<close> uses its room or its staff member.\<close>

definition slot_conflict :: "assignments \<Rightarrow> Assignment \<Rightarrow> bool" where
  "slot_conflict xs a =
     (\<exists>(b', a') \<in> set xs.
        slot_key_of (time_slot a') = slot_key_of (time_slot a) \<and>
        (get_room_key (room a') = get_room_key (room a) \<or>
         staff_id (staff_member (block a')) = staff_id (staff_member (block a))))"

text \<open>The room index or the staff index already holds a block at the slot of \<open>a\<close>.\<close>

definition index_conflict :: "SchedulerState \<Rightarrow> Assignment \<Rightarrow> bool" where
  "index_conflict st a =
     (inner_dict (room_bookings st) (get_room_key (room a)) (slot_key_of (time_slot a)) \<noteq> None \<or>
      inner_dict (staff_bookings st) (staff_id (staff_member (block a))) (slot_key_of (time_slot a)) \<noteq> None)"

text \<open>The room index and the staff index record exactly the stored assignments.\<close>

definition room_index_agrees :: "ConstraintManager \<Rightarrow> bool" where
  "room_index_agrees cm =
     (\<forall>rk sk bid. inner_dict (room_bookings (state cm)) rk sk = Some bid \<longleftrightarrow>
        (\<exists>a. (bid, a) \<in> set (current_assignments cm) \<and> get_room_key (room a) = rk
              \<and> slot_key_of (time_slot a) = sk))"

definition staff_index_agrees :: "ConstraintManager \<Rightarrow> bool" where
  "staff_index_agrees cm =
     (\<forall>sid sk bid. inner_dict (staff_bookings (state cm)) sid sk = Some bid \<longleftrightarrow>
        (\<exists>a. (bid, a) \<in> set (current_assignments cm) \<and> staff_id (staff_member (block a)) = sid
              \<and> slot_key_of (time_slot a) = sk))"

text \<open>P1 and P2: two entries that share a slot and a room key, or a slot and a staff id, are one entry.\<close>

definition no_double_booking :: "assignments \<Rightarrow> bool" where
  "no_double_booking xs =
     (\<forall>(b1, a1) \<in> set xs. \<forall>(b2, a2) \<in> set xs.
        slot_key_of (time_slot a1) = slot_key_of (time_slot a2) \<and>
        (get_room_key (room a1) = get_room_key (room a2) \<or>
         staff_id (staff_member (block a1)) = staff_id (staff_member (block a2)))
        \<longrightarrow> b1 = b2 \<and> a1 = a2)"

definition consistent :: "ConstraintManager \<Rightarrow> bool" where
  "consistent cm =
     (distinct (dict_keys (current_assignments cm)) \<and> room_index_agrees cm \<and> staff_index_agrees cm)"

text \<open>The states reachable from the empty one by \<^verbatim>\<open>make_assignment\<close> and \<^verbatim>\<open>initialize_fresh_state\<close>.\<close>

inductive reachable :: "ConstraintManager \<Rightarrow> bool" where
  reachable_init: "reachable new_ConstraintManager"
| reachable_assign: "reachable cm \<Longrightarrow> reachable (snd (make_assignment cm bid a))"
| reachable_reset: "reachable cm \<Longrightarrow> reachable (initialize_fresh_state cm)"

text \<open>
  The rooms a block may use at all (the first three bullets of the candidate-room
  contract): for a lab block its preferred rooms when it has any, else the labs open to
  non-specialist courses; for any other block the halls.
\<close>

definition kind_appropriate :: "ResourceManager \<Rightarrow> Block \<Rightarrow> Room list" where
  "kind_appropriate rm b =
     (if required_room_type b = ''lab'' then
        (if preferred_rooms b \<noteq> [] then preferred_rooms b
         else map IsLab (filter used_in_non_specialist_courses (dict_values (labs rm))))
      else map IsHall (dict_values (halls rm)))"

definition fit :: "Block \<Rightarrow> Room \<Rightarrow> int" where
  "fit b r = \<bar>capacity r - student_count b\<bar>"


text \<open>The capacity gate in the words of the specification: the ceiling of 0.8 times the student count.\<close>

definition capacity_gate :: "Block \<Rightarrow> Room \<Rightarrow> bool" where
  "capacity_gate b r = (\<lceil>real_of_int (student_count b) * 0.8\<rceil> \<le> capacity r)"

text \<open>The slot identities of a room that no stored assignment of that room occupies.\<close>

definition free_slot_keys :: "Room \<Rightarrow> assignments \<Rightarrow> slot_key list" where
  "free_slot_keys r xs =
     filter (\<lambda>x. x \<notin> set (map (\<lambda>a. slot_key_of (time_slot a)) (filter (\<lambda>a. room a = r) (dict_values xs))))
       (remdups (map slot_key_of (availability r)))"

definition preferred_keys :: "Block \<Rightarrow> slot_key set" where
  "preferred_keys b = set (map slot_key_of (timing_preferences (staff_member b)))"

definition preferred_first :: "Block \<Rightarrow> slot_key list \<Rightarrow> bool" where
  "preferred_first b ks =
     (ks = filter (\<lambda>x. x \<in> preferred_keys b) ks @ filter (\<lambda>x. x \<notin> preferred_keys b) ks)"

text \<open>
  The time grid in the words of the specification: Sunday to Thursday, two-hour slots
  from 09:00 to 19:00, without the Monday 13:00 start.
\<close>

definition day_starts :: "Day \<Rightarrow> nat list" where
  "day_starts d = (if d = MONDAY then [9, 11, 15, 17] else [9, 11, 13, 15, 17])"

definition time_grid :: "TimePreference list" where
  "time_grid =
     concat (map (\<lambda>d. map (\<lambda>h. TimePreference d (h, 0) (h + 2, 0)) (day_starts d)) working_days)"

text \<open>The key of the study-plan index: academic list, day and start time.\<close>

definition sp_key :: "Assignment \<Rightarrow> string \<times> Day \<times> ptime" where
  "sp_key a = (academic_list (block a), day (time_slot a), start_time (time_slot a))"

text \<open>
  What the placement of one block establishes about its assignment, whatever the state:
  the room is a candidate room of the block, the slot identity is one of the room's
  availability with the canonical end time, a lecturer's slot is one the lecturer
  prefers, and the room-availability and room-kind checks of \<^verbatim>\<open>can_assign\<close> held.
\<close>

definition placed_by :: "ResourceManager \<Rightarrow> Assignment \<Rightarrow> bool" where
  "placed_by rm a =
     (room a \<in> set (get_suitable_rooms rm (block a) default_capacity_ratio)
      \<and> slot_key_of (time_slot a) \<in> set (map slot_key_of (availability (room a)))
      \<and> mk_time (int (hour (start_time (time_slot a))) + time_slot_duration rm) 0 = Inr (end_time (time_slot a))
      \<and> (isinstance_Lecturer (staff_member (block a)) \<longrightarrow> slot_key_of (time_slot a) \<in> preferred_keys (block a))
      \<and> availability_scan (time_slot a) (availability (room a))
      \<and> check_lab_requirements new_ConstraintManager (block a) (time_slot a) (room a))"

text \<open>The engine stores every assignment under the id of its block.\<close>

definition keyed_by_block_id :: "assignments \<Rightarrow> bool" where
  "keyed_by_block_id xs = (\<forall>(bid, a) \<in> set xs. bid = block_id (block a))"

text \<open>The study-plan index lists, per key, the ids of the stored assignments with that key, in order.\<close>

definition study_plan_index_agrees :: "ConstraintManager \<Rightarrow> bool" where
  "study_plan_index_agrees cm =
     (\<forall>k. study_plan_slots (state cm) k =
        (let ids = map fst (filter (\<lambda>(bid, a). sp_key a = k) (current_assignments cm))
         in if ids = [] then None else Some ids))"

text \<open>
  The cohort rule that the engine enforces: an assignment of a single-group block shares
  its academic list, day and start time with no other assignment.
\<close>

definition single_group_exclusive :: "assignments \<Rightarrow> bool" where
  "single_group_exclusive xs =
     (\<forall>(b1, a1) \<in> set xs. \<forall>(b2, a2) \<in> set xs.
        sp_key a1 = sp_key a2 \<and> is_single_group_course (block a1) \<longrightarrow> b1 = b2 \<and> a1 = a2)"

text \<open>The invariant of the placement loop behind the cohort rule.\<close>

definition cohort_inv :: "ConstraintManager \<Rightarrow> bool" where
  "cohort_inv cm =
     (distinct (dict_keys (current_assignments cm)) \<and> keyed_by_block_id (current_assignments cm)
      \<and> study_plan_index_agrees cm \<and> single_group_exclusive (current_assignments cm))"

text \<open>
  The result of one attempt: its assignments, its score and the number of blocks it
  placed. An attempt is better than another when it placed more blocks, or as many with
  a strictly higher score: the lexicographic order of the pairs (placed, score).
\<close>

type_synonym attempt_result = "assignments \<times> real \<times> nat"

definition attempt_key :: "attempt_result \<Rightarrow> nat \<times> real" where
  "attempt_key r = (snd (snd r), fst (snd r))"

definition better :: "attempt_result \<Rightarrow> attempt_result \<Rightarrow> bool" where
  "better r1 r2 = (attempt_key r2 < attempt_key r1)"

text \<open>The test for early termination after an attempt.\<close>

definition stops :: "nat \<Rightarrow> attempt_result \<Rightarrow> bool" where
  "stops total_blocks r = (snd (snd r) = total_blocks \<and> fst (snd r) \<ge> 0.95)"


text \<open>The update of the best attempt so far.\<close>

definition keep_best :: "attempt_result \<Rightarrow> attempt_result \<Rightarrow> attempt_result" where
  "keep_best best r = (if better r best then r else best)"

text \<open>P6 in the words of the specification, keyed by academic list, academic level, day and start time.\<close>

definition cohort_key :: "Assignment \<Rightarrow> string \<times> int \<times> Day \<times> ptime" where
  "cohort_key a = (academic_list (block a), academic_level (block a), day (time_slot a), start_time (time_slot a))"

definition cohort_invariant_P6 :: "assignments \<Rightarrow> bool" where
  "cohort_invariant_P6 xs =
     (\<forall>(b1, a1) \<in> set xs. \<forall>(b2, a2) \<in> set xs.
        cohort_key a1 = cohort_key a2 \<and> (b1, a1) \<noteq> (b2, a2) \<longrightarrow>
          \<not> is_single_group_course (block a1)
          \<and> course_code (block a1) = course_code (block a2)
          \<and> group_number (block a1) \<noteq> group_number (block a2))"

text \<open>P5 in the words of the specification, and its three parts.\<close>

definition kind_matches :: "Assignment \<Rightarrow> bool" where
  "kind_matches a = (fst (get_room_key (room a)) = required_room_type (block a))"

definition preferred_respected :: "Assignment \<Rightarrow> bool" where
  "preferred_respected a =
     (preferred_rooms (block a) \<noteq> [] \<longrightarrow> room a \<in> set (preferred_rooms (block a)))"

definition preferred_respected_lab :: "Assignment \<Rightarrow> bool" where
  "preferred_respected_lab a =
     (required_room_type (block a) = ''lab'' \<and> preferred_rooms (block a) \<noteq> []
        \<longrightarrow> room a \<in> set (preferred_rooms (block a)))"

definition specialist_guard :: "Assignment \<Rightarrow> bool" where
  "specialist_guard a =
     (preferred_rooms (block a) = [] \<longrightarrow>
        \<not> (isinstance_Lab (room a) \<and> \<not> room_used_in_non_specialist_courses (room a)))"

definition room_invariant_P5 :: "assignments \<Rightarrow> bool" where
  "room_invariant_P5 xs =
     (\<forall>(bid, a) \<in> set xs. kind_matches a \<and> preferred_respected a \<and> specialist_guard a)"

text \<open>P5 with preferred rooms binding only the blocks that require a lab.\<close>

definition room_invariant_lab :: "assignments \<Rightarrow> bool" where
  "room_invariant_lab xs =
     (\<forall>(bid, a) \<in> set xs. kind_matches a \<and> preferred_respected_lab a \<and> specialist_guard a)"

text \<open>P4: the slot of a lecturer's block is one the lecturer prefers.\<close>

definition lecturer_slots_preferred :: "assignments \<Rightarrow> bool" where
  "lecturer_slots_preferred xs =
     (\<forall>(bid, a) \<in> set xs. isinstance_Lecturer (staff_member (block a)) \<longrightarrow>
        slot_key_of (time_slot a) \<in> preferred_keys (block a))"

text \<open>Every room an assignment can use: the halls, the labs and the preferred labs of the courses.\<close>

definition all_rooms :: "ResourceManager \<Rightarrow> CourseAssignment list \<Rightarrow> Room list" where
  "all_rooms rm course_assignments =
     map IsHall (dict_values (halls rm)) @ map IsLab (dict_values (labs rm))
     @ map IsLab (concat (map preferred_labs course_assignments))"

definition rooms_on_grid :: "ResourceManager \<Rightarrow> CourseAssignment list \<Rightarrow> bool" where
  "rooms_on_grid rm course_assignments =
     (\<forall>r \<in> set (all_rooms rm course_assignments). set (availability r) \<subseteq> set time_grid)"

text \<open>No assignment on Monday at 13:00.\<close>

definition no_monday_13 :: "assignments \<Rightarrow> bool" where
  "no_monday_13 xs = (\<forall>(bid, a) \<in> set xs. slot_key_of (time_slot a) \<noteq> (MONDAY, (13, 0)))"

section \<open>Example inputs\<close>

definition ex_sun9 :: TimePreference where
  "ex_sun9 = TimePreference SUNDAY (9, 0) (11, 0)"

definition ex_sun11 :: TimePreference where
  "ex_sun11 = TimePreference SUNDAY (11, 0) (13, 0)"

definition ex_hall1 :: Hall where
  "ex_hall1 = Hall 1 ''H1'' 30 [ex_sun9, ex_sun11]"

definition ex_hall2 :: Hall where
  "ex_hall2 = Hall 2 ''H2'' 40 [ex_sun9, ex_sun11]"

definition ex_hall3 :: Hall where
  "ex_hall3 = Hall 3 ''H3'' 30 [ex_sun11]"

definition ex_lab1 :: Lab where
  "ex_lab1 = Lab 1 ''L1'' 30 [ex_sun9, ex_sun11] SPECIALIST True"

definition ex_lect1 :: StaffInfo where
  "ex_lect1 = StaffInfo 1 ''A'' [ex_sun9, ex_sun11]"

definition ex_lect2 :: StaffInfo where
  "ex_lect2 = StaffInfo 2 ''B'' [ex_sun9, ex_sun11]"

definition ex_ta3 :: StaffInfo where
  "ex_ta3 = StaffInfo 3 ''T'' []"

definition ex_plan :: StudyPlan where
  "ex_plan = StudyPlan ''CS-1'' ''CS'' 1 20"

text \<open>One lecture group and one lab group: both blocks are single-group blocks.\<close>

definition ex_course1 :: CourseAssignment where
  "ex_course1 = CourseAssignment 1 ''A'' 1 [(ex_lect1, 1)] 1 [(ex_ta3, 1)] True []"

definition ex_block_lecture :: Block where
  "ex_block_lecture = lecture_block ex_course1 ex_plan ex_lect1 1"

definition ex_block_lab :: Block where
  "ex_block_lab = lab_block ex_course1 ex_plan ex_ta3 1"

definition ex_a1 :: Assignment where
  "ex_a1 = Assignment ex_block_lecture ex_sun9 (IsHall ex_hall1)"

text \<open>The manager after the lecture block is committed to hall 1 on Sunday 09:00.\<close>

definition ex_cm1 :: ConstraintManager where
  "ex_cm1 = snd (make_assignment new_ConstraintManager (block_id ex_block_lecture) ex_a1)"

text \<open>The same room and slot for another block and staff member.\<close>

definition ex_a_clash :: Assignment where
  "ex_a_clash = Assignment ex_block_lab ex_sun9 (IsHall ex_hall1)"

text \<open>A manager whose indices hold a booking that its assignments map does not.\<close>

definition ex_cm_stale :: ConstraintManager where
  "ex_cm_stale = ex_cm1\<lparr> current_assignments := [] \<rparr>"

text \<open>
  A lab block of a single-group course, in a hall that is closed at the slot, at a slot
  where its cohort already has a block: H3, H4 and H5 fail, the room and the staff member
  are free.
\<close>

definition ex_a_bad :: Assignment where
  "ex_a_bad = Assignment ex_block_lab ex_sun9 (IsHall ex_hall3)"

text \<open>A catalogue of two halls and one lab, built as the constructor builds it (\<open>new_ResourceManager_default\<close>).\<close>

definition ex_rm :: ResourceManager where
  "ex_rm = \<lparr> halls = dict_by hall_id [ex_hall1, ex_hall2], labs = dict_by lab_id [ex_lab1],
             time_slot_duration = 2, break_duration = 0, time_slots = time_grid \<rparr>"

text \<open>
  Two courses of one study plan of 40 students, with two lecture groups each, so that no
  block is a single-group block.
\<close>

definition ex_courseA :: CourseAssignment where
  "ex_courseA = CourseAssignment 1 ''A'' 2 [(ex_lect1, 2)] 0 [] True []"

definition ex_courseB :: CourseAssignment where
  "ex_courseB = CourseAssignment 2 ''B'' 2 [(ex_lect2, 2)] 0 [] True []"

definition ex_plan40 :: StudyPlan where
  "ex_plan40 = StudyPlan ''CS-1'' ''CS'' 1 40"

definition ex_mapping2 :: "nat \<rightharpoonup> StudyPlan" where
  "ex_mapping2 = [0 \<mapsto> ex_plan40, 1 \<mapsto> ex_plan40]"

definition ex_mapping1 :: "nat \<rightharpoonup> StudyPlan" where
  "ex_mapping1 = [0 \<mapsto> ex_plan]"

text \<open>A course whose lab sessions are not practical-in-lab and that names a preferred lab.\<close>

definition ex_course_hall_lab :: CourseAssignment where
  "ex_course_hall_lab = CourseAssignment 3 ''C'' 1 [(ex_lect1, 1)] 1 [(ex_ta3, 1)] False [ex_lab1]"


text \<open>A lecturer who prefers Monday 13:00, and a hall that is open on the whole time grid.\<close>

definition ex_mon13 :: TimePreference where
  "ex_mon13 = TimePreference MONDAY (13, 0) (15, 0)"

definition ex_lect_mon :: StaffInfo where
  "ex_lect_mon = StaffInfo 5 ''M'' [ex_mon13, ex_sun11]"

definition ex_course_mon :: CourseAssignment where
  "ex_course_mon = CourseAssignment 5 ''E'' 1 [(ex_lect_mon, 1)] 0 [] True []"

definition ex_hall_grid :: Hall where
  "ex_hall_grid = Hall 4 ''G'' 30 time_grid"

definition ex_rm_grid :: ResourceManager where
  "ex_rm_grid = \<lparr> halls = dict_by hall_id [ex_hall_grid], labs = [],
             time_slot_duration = 2, break_duration = 0, time_slots = time_grid \<rparr>"

text \<open>A teaching assistant who prefers Sunday 11:00.\<close>

definition ex_ta4 :: StaffInfo where
  "ex_ta4 = StaffInfo 4 ''U'' [ex_sun11]"

text \<open>The schedules that the engine returns on these inputs.\<close>

definition ex_sched_AB :: assignments where
  "ex_sched_AB =
     [(''L_A_1_1'', Assignment (lecture_block ex_courseA ex_plan40 ex_lect1 1) ex_sun9 (IsHall ex_hall1)),
      (''L_A_1_2'', Assignment (lecture_block ex_courseA ex_plan40 ex_lect1 2) ex_sun11 (IsHall ex_hall1)),
      (''L_B_2_1'', Assignment (lecture_block ex_courseB ex_plan40 ex_lect2 1) ex_sun9 (IsHall ex_hall2)),
      (''L_B_2_2'', Assignment (lecture_block ex_courseB ex_plan40 ex_lect2 2) ex_sun11 (IsHall ex_hall2))]"

definition ex_sched_single :: assignments where
  "ex_sched_single =
     [(''P_A_3_1'', Assignment (lab_block ex_course1 ex_plan ex_ta3 1) ex_sun9 (IsLab ex_lab1)),
      (''L_A_1_1'', Assignment (lecture_block ex_course1 ex_plan ex_lect1 1) ex_sun11 (IsHall ex_hall1))]"

definition ex_sched_hall_lab :: assignments where
  "ex_sched_hall_lab =
     [(''L_C_1_1'', Assignment (lecture_block ex_course_hall_lab ex_plan ex_lect1 1) ex_sun9 (IsHall ex_hall1)),
      (''P_C_3_1'', Assignment (lab_block ex_course_hall_lab ex_plan ex_ta3 1) ex_sun11 (IsHall ex_hall1))]"



definition ex_sched_mon :: assignments where
  "ex_sched_mon =
     [(''L_E_5_1'', Assignment (lecture_block ex_course_mon ex_plan ex_lect_mon 1) ex_sun11 (IsHall ex_hall_grid))]"



definition ex_block_mon :: Block where
  "ex_block_mon = lecture_block ex_course_mon ex_plan ex_lect_mon 1"

definition ex_block_ta4 :: Block where
  "ex_block_ta4 = lab_block ex_course1 ex_plan ex_ta4 1"

section \<open>The commit is atomic and keeps the indices consistent\<close>

lemma set_inner_setdefault: "set_inner (setdefault_empty d k) k j v = set_inner d k j v"
  by (auto simp: set_inner_def setdefault_empty_def inner_dict_def split: option.splits)

lemma inner_dict_setdefault: "inner_dict (setdefault_empty d k) k' = inner_dict d k'"
  by (auto simp: setdefault_empty_def inner_dict_def split: option.splits)

lemma inner_dict_set_inner:
  "inner_dict (set_inner d k j v) k' j' = (if k' = k \<and> j' = j then Some v else inner_dict d k' j')"
  by (auto simp: set_inner_def inner_dict_def split: option.splits)

lemma dict_set_fresh: "k \<notin> set (dict_keys d) \<Longrightarrow> dict_set d k v = d @ [(k, v)]"
  by (simp add: dict_set_def)

lemma add_to_state_cases:
  "(\<exists>e cm'. add_to_state cm bid a = (Inl e, cm')) \<or>
   (\<exists>cm'. add_to_state cm bid a = (Inr (), cm') \<and> committed cm bid a cm'
      \<and> bid \<notin> set (dict_keys (current_assignments cm)) \<and> verify_no_conflicts_before_commit cm a = Inr ()
      \<and> inner_dict (room_bookings (state cm)) (get_room_key (room a)) (day (time_slot a), start_time (time_slot a)) = None
      \<and> inner_dict (staff_bookings (state cm)) (staff_id (staff_member (block a))) (day (time_slot a), start_time (time_slot a)) = None)"
  unfolding add_to_state_def committed_def
  by (auto simp: Let_def set_inner_setdefault inner_dict_setdefault dict_set_fresh
      update_course_slots_def update_level_slots_def update_study_plan_slots_def
      split: sum.splits)

lemma restore_snapshot:
  "(cm' :: ConstraintManager)\<lparr> state := state cm, current_assignments := current_assignments cm \<rparr> = cm"
  by (cases cm, cases cm') auto

lemma make_assignment_cases:
  "make_assignment cm bid a = (False, cm) \<or>
   (\<exists>cm'. make_assignment cm bid a = (True, cm') \<and> committed cm bid a cm'
      \<and> bid \<notin> set (dict_keys (current_assignments cm)) \<and> verify_no_conflicts_before_commit cm a = Inr ()
      \<and> inner_dict (room_bookings (state cm)) (get_room_key (room a)) (day (time_slot a), start_time (time_slot a)) = None
      \<and> inner_dict (staff_bookings (state cm)) (staff_id (staff_member (block a))) (day (time_slot a), start_time (time_slot a)) = None)"
  using add_to_state_cases [of cm bid a]
  by (auto simp: make_assignment_def restore_snapshot)

lemma verify_scan_ok:
  "verify_scan sk rk sid xs = Inr () \<longleftrightarrow>
     (\<forall>(b, a) \<in> set xs. slot_key_of (time_slot a) = sk \<longrightarrow>
        get_room_key (room a) \<noteq> rk \<and> staff_id (staff_member (block a)) \<noteq> sid)"
  by (induction sk rk sid xs rule: verify_scan.induct) (auto simp: slot_key_of_def)

lemma add_to_state_success_iff:
  "fst (add_to_state cm bid a) = Inr () \<longleftrightarrow>
     (verify_no_conflicts_before_commit cm a = Inr ()
      \<and> bid \<notin> set (dict_keys (current_assignments cm))
      \<and> inner_dict (room_bookings (state cm)) (get_room_key (room a)) (day (time_slot a), start_time (time_slot a)) = None
      \<and> inner_dict (staff_bookings (state cm)) (staff_id (staff_member (block a))) (day (time_slot a), start_time (time_slot a)) = None)"
  unfolding add_to_state_def
  by (auto simp: Let_def inner_dict_setdefault inner_dict_set_inner split: sum.splits)

lemma make_assignment_success_iff:
  "fst (make_assignment cm bid a) \<longleftrightarrow>
     (verify_no_conflicts_before_commit cm a = Inr ()
      \<and> bid \<notin> set (dict_keys (current_assignments cm))
      \<and> inner_dict (room_bookings (state cm)) (get_room_key (room a)) (day (time_slot a), start_time (time_slot a)) = None
      \<and> inner_dict (staff_bookings (state cm)) (staff_id (staff_member (block a))) (day (time_slot a), start_time (time_slot a)) = None)"
  using add_to_state_success_iff [of cm bid a]
  by (cases "add_to_state cm bid a") (auto simp: make_assignment_def split: sum.splits)


lemma consistent_fresh: "consistent \<lparr> state = create_empty, current_assignments = [] \<rparr>"
  by (simp add: consistent_def room_index_agrees_def staff_index_agrees_def create_empty_def
      inner_dict_def dict_keys_def)

lemma consistent_new: "consistent new_ConstraintManager"
  using consistent_fresh by (simp add: new_ConstraintManager_def)

lemma consistent_reset: "consistent (initialize_fresh_state cm)"
  by (simp add: initialize_fresh_state_def consistent_def room_index_agrees_def staff_index_agrees_def create_empty_def
      inner_dict_def dict_keys_def)

lemma consistent_committed:
  assumes c: "consistent cm" and k: "committed cm bid a cm'"
    and fresh: "bid \<notin> set (dict_keys (current_assignments cm))"
    and v: "verify_no_conflicts_before_commit cm a = Inr ()"
  shows "consistent cm'"
proof -
  let ?sk = "(day (time_slot a), start_time (time_slot a))"
  from v have free: "\<And>b' a'. (b', a') \<in> set (current_assignments cm) \<Longrightarrow> slot_key_of (time_slot a') = ?sk \<Longrightarrow>
      get_room_key (room a') \<noteq> get_room_key (room a) \<and> staff_id (staff_member (block a')) \<noteq> staff_id (staff_member (block a))"
    unfolding verify_no_conflicts_before_commit_def verify_scan_ok by blast
  from k have as: "current_assignments cm' = current_assignments cm @ [(bid, a)]"
    and rb: "room_bookings (state cm') = set_inner (room_bookings (state cm)) (get_room_key (room a)) ?sk bid"
    and sb: "staff_bookings (state cm') = set_inner (staff_bookings (state cm)) (staff_id (staff_member (block a))) ?sk bid"
    by (simp_all add: committed_def Let_def)
  have d: "distinct (dict_keys (current_assignments cm'))"
    using c fresh by (simp add: as consistent_def dict_keys_def)
  have r: "room_index_agrees cm'"
    unfolding room_index_agrees_def
  proof (intro allI)
    fix rk sk b
    from c have old: "inner_dict (room_bookings (state cm)) rk sk = Some b \<longleftrightarrow>
        (\<exists>a'. (b, a') \<in> set (current_assignments cm) \<and> get_room_key (room a') = rk \<and> slot_key_of (time_slot a') = sk)"
      unfolding consistent_def room_index_agrees_def by blast
    show "inner_dict (room_bookings (state cm')) rk sk = Some b \<longleftrightarrow>
        (\<exists>a'. (b, a') \<in> set (current_assignments cm') \<and> get_room_key (room a') = rk \<and> slot_key_of (time_slot a') = sk)"
    proof (cases "rk = get_room_key (room a) \<and> sk = ?sk")
      case True
      then show ?thesis using free by (auto simp: rb as inner_dict_set_inner slot_key_of_def)
    next
      case False
      then show ?thesis using old by (auto simp: rb as inner_dict_set_inner slot_key_of_def)
    qed
  qed
  have s: "staff_index_agrees cm'"
    unfolding staff_index_agrees_def
  proof (intro allI)
    fix sid sk b
    from c have old: "inner_dict (staff_bookings (state cm)) sid sk = Some b \<longleftrightarrow>
        (\<exists>a'. (b, a') \<in> set (current_assignments cm) \<and> staff_id (staff_member (block a')) = sid \<and> slot_key_of (time_slot a') = sk)"
      unfolding consistent_def staff_index_agrees_def by blast
    show "inner_dict (staff_bookings (state cm')) sid sk = Some b \<longleftrightarrow>
        (\<exists>a'. (b, a') \<in> set (current_assignments cm') \<and> staff_id (staff_member (block a')) = sid \<and> slot_key_of (time_slot a') = sk)"
    proof (cases "sid = staff_id (staff_member (block a)) \<and> sk = ?sk")
      case True
      then show ?thesis using free by (auto simp: sb as inner_dict_set_inner slot_key_of_def)
    next
      case False
      then show ?thesis using old by (auto simp: sb as inner_dict_set_inner slot_key_of_def)
    qed
  qed
  from d r s show ?thesis by (simp add: consistent_def)
qed

lemma consistent_make_assignment:
  "consistent cm \<Longrightarrow> consistent (snd (make_assignment cm bid a))"
  using make_assignment_cases [of cm bid a] consistent_committed [of cm bid a]
  by auto

lemma reachable_consistent: "reachable cm \<Longrightarrow> consistent cm"
  by (induction rule: reachable.induct)
     (simp_all add: consistent_new consistent_make_assignment consistent_reset)

lemma consistent_no_double_booking:
  assumes "consistent cm"
  shows "no_double_booking (current_assignments cm)"
  unfolding no_double_booking_def
proof (intro ballI, clarify)
  fix b1 a1 b2 a2
  assume m1: "(b1, a1) \<in> set (current_assignments cm)" and m2: "(b2, a2) \<in> set (current_assignments cm)"
    and sk: "slot_key_of (time_slot a1) = slot_key_of (time_slot a2)"
    and same: "get_room_key (room a1) = get_room_key (room a2) \<or>
         staff_id (staff_member (block a1)) = staff_id (staff_member (block a2))"
  from assms have d: "distinct (map fst (current_assignments cm))"
    and r: "room_index_agrees cm" and s: "staff_index_agrees cm"
    by (simp_all add: consistent_def dict_keys_def)
  have "b1 = b2"
  proof (rule disjE [OF same])
    assume e: "get_room_key (room a1) = get_room_key (room a2)"
    have "inner_dict (room_bookings (state cm)) (get_room_key (room a1)) (slot_key_of (time_slot a1)) = Some b1"
      using r m1 unfolding room_index_agrees_def by blast
    moreover have "inner_dict (room_bookings (state cm)) (get_room_key (room a1)) (slot_key_of (time_slot a1)) = Some b2"
      using r m2 e sk unfolding room_index_agrees_def by metis
    ultimately show ?thesis by simp
  next
    assume e: "staff_id (staff_member (block a1)) = staff_id (staff_member (block a2))"
    have "inner_dict (staff_bookings (state cm)) (staff_id (staff_member (block a1))) (slot_key_of (time_slot a1)) = Some b1"
      using s m1 unfolding staff_index_agrees_def by blast
    moreover have "inner_dict (staff_bookings (state cm)) (staff_id (staff_member (block a1))) (slot_key_of (time_slot a1)) = Some b2"
      using s m2 e sk unfolding staff_index_agrees_def by metis
    ultimately show ?thesis by simp
  qed
  moreover from this d m1 m2 have "a1 = a2"
    by (metis eq_key_imp_eq_value)
  ultimately show "b1 = b2 \<and> a1 = a2" by simp
qed

lemma make_assignment_unbooked_succeeds:
  assumes c: "consistent cm"
    and fresh: "bid \<notin> set (dict_keys (current_assignments cm))"
    and room_free: "check_room_booking cm (block a) (time_slot a) (room a)"
    and staff_free: "check_staff_booking cm (block a) (time_slot a) (room a)"
  shows "fst (make_assignment cm bid a)"
proof -
  let ?sk = "(day (time_slot a), start_time (time_slot a))"
  from room_free have rf: "inner_dict (room_bookings (state cm)) (get_room_key (room a)) ?sk = None"
    by (auto simp: check_room_booking_def inner_dict_def split: option.splits)
  from staff_free have sf: "inner_dict (staff_bookings (state cm)) (staff_id (staff_member (block a))) ?sk = None"
    by (auto simp: check_staff_booking_def inner_dict_def split: option.splits)
  have "verify_no_conflicts_before_commit cm a = Inr ()"
    unfolding verify_no_conflicts_before_commit_def verify_scan_ok
  proof (clarify)
    fix b' a'
    assume m: "(b', a') \<in> set (current_assignments cm)" and k: "slot_key_of (time_slot a') = ?sk"
    have "get_room_key (room a') \<noteq> get_room_key (room a)"
    proof
      assume "get_room_key (room a') = get_room_key (room a)"
      with c m k have "inner_dict (room_bookings (state cm)) (get_room_key (room a)) ?sk = Some b'"
        unfolding consistent_def room_index_agrees_def by blast
      with rf show False by simp
    qed
    moreover have "staff_id (staff_member (block a')) \<noteq> staff_id (staff_member (block a))"
    proof
      assume "staff_id (staff_member (block a')) = staff_id (staff_member (block a))"
      with c m k have "inner_dict (staff_bookings (state cm)) (staff_id (staff_member (block a))) ?sk = Some b'"
        unfolding consistent_def staff_index_agrees_def by blast
      with sf show False by simp
    qed
    ultimately show "get_room_key (room a') \<noteq> get_room_key (room a) \<and>
       staff_id (staff_member (block a')) \<noteq> staff_id (staff_member (block a))" by simp
  qed
  with fresh rf sf show ?thesis by (simp add: make_assignment_success_iff)
qed


lemma make_assignment_failure:
  "\<not> fst (make_assignment cm bid a) \<Longrightarrow> make_assignment cm bid a = (False, cm)"
  using make_assignment_cases [of cm bid a] by auto

lemma slot_conflict_verify:
  "slot_conflict (current_assignments cm) a \<Longrightarrow> verify_no_conflicts_before_commit cm a \<noteq> Inr ()"
  unfolding verify_no_conflicts_before_commit_def verify_scan_ok slot_conflict_def
  by (auto simp: slot_key_of_def)

lemmas cm_defs = make_assignment_def add_to_state_def verify_no_conflicts_before_commit_def
  new_ConstraintManager_def create_empty_def dict_keys_def dict_values_def dict_set_def
  setdefault_empty_def inner_dict_def set_inner_def update_course_slots_def update_level_slots_def
  update_study_plan_slots_def get_room_key_def staff_id_def slot_key_of_def Let_def

lemmas ex_defs = ex_sun9_def ex_sun11_def ex_hall1_def ex_hall2_def ex_hall3_def ex_lab1_def
  ex_lect1_def ex_lect2_def ex_ta3_def ex_plan_def ex_course1_def ex_block_lecture_def ex_block_lab_def
  ex_a1_def ex_a_bad_def ex_a_clash_def lecture_block_def lab_block_def str_int_def

lemma ex_cm1_assignments: "current_assignments ex_cm1 = [(block_id ex_block_lecture, ex_a1)]"
  by (simp add: ex_cm1_def cm_defs ex_a1_def)

lemma ex_cm1_reachable: "reachable ex_cm1"
  unfolding ex_cm1_def by (intro reachable_assign reachable_init)

text \<open>
  C2 (atomicity of \<^verbatim>\<open>make_assignment\<close>). For every manager, block id and assignment the
  call either returns False and leaves the manager exactly as it was, or returns True
  with the entry appended to the assignments map and all five indices updated. It
  returns False without a change when the block id is already a key of the assignments
  map, when a stored assignment at the same slot uses the room or the staff member, and
  when the room index or the staff index already holds the slot (the raise after the
  first mutation, undone by the snapshot).
\<close>

theorem make_assignment_atomic:
  "(make_assignment cm bid a = (False, cm)
      \<or> (\<exists>cm'. make_assignment cm bid a = (True, cm') \<and> committed cm bid a cm'))
   \<and> (bid \<in> set (dict_keys (current_assignments cm)) \<longrightarrow> make_assignment cm bid a = (False, cm))
   \<and> (slot_conflict (current_assignments cm) a \<longrightarrow> make_assignment cm bid a = (False, cm))
   \<and> (index_conflict (state cm) a \<longrightarrow> make_assignment cm bid a = (False, cm))"
proof (intro conjI impI)
  show "make_assignment cm bid a = (False, cm)
      \<or> (\<exists>cm'. make_assignment cm bid a = (True, cm') \<and> committed cm bid a cm')"
    using make_assignment_cases [of cm bid a] by blast
next
  assume "bid \<in> set (dict_keys (current_assignments cm))"
  then show "make_assignment cm bid a = (False, cm)"
    by (simp add: make_assignment_def)
next
  assume "slot_conflict (current_assignments cm) a"
  then have "\<not> fst (make_assignment cm bid a)"
    using slot_conflict_verify [of cm a] by (simp add: make_assignment_success_iff)
  then show "make_assignment cm bid a = (False, cm)"
    by (rule make_assignment_failure)
next
  assume "index_conflict (state cm) a"
  then have "\<not> fst (make_assignment cm bid a)"
    by (auto simp: make_assignment_success_iff index_conflict_def slot_key_of_def)
  then show "make_assignment cm bid a = (False, cm)"
    by (rule make_assignment_failure)
qed

theorem make_assignment_atomic_witness:
  "block_id ex_block_lecture \<in> set (dict_keys (current_assignments ex_cm1))
   \<and> make_assignment ex_cm1 (block_id ex_block_lecture) ex_a1 = (False, ex_cm1)
   \<and> slot_conflict (current_assignments ex_cm1) ex_a_clash
   \<and> make_assignment ex_cm1 (block_id ex_block_lab) ex_a_clash = (False, ex_cm1)
   \<and> index_conflict (state ex_cm_stale) ex_a_clash
   \<and> make_assignment ex_cm_stale (block_id ex_block_lab) ex_a_clash = (False, ex_cm_stale)"
proof -
  have h1: "block_id ex_block_lecture \<in> set (dict_keys (current_assignments ex_cm1))"
    by (simp add: ex_cm1_assignments dict_keys_def)
  have h2: "slot_conflict (current_assignments ex_cm1) ex_a_clash"
    by (simp add: ex_cm1_assignments slot_conflict_def ex_a1_def ex_a_clash_def)
  have h3: "index_conflict (state ex_cm_stale) ex_a_clash"
    by (simp add: ex_cm_stale_def ex_cm1_def index_conflict_def cm_defs ex_defs)
  show ?thesis
    using h1 h2 h3
      make_assignment_atomic [of ex_cm1 "block_id ex_block_lecture" ex_a1]
      make_assignment_atomic [of ex_cm1 "block_id ex_block_lab" ex_a_clash]
      make_assignment_atomic [of ex_cm_stale "block_id ex_block_lab" ex_a_clash]
    by blast
qed

text \<open>
  C1 (no double booking). In every state reachable from the empty one by any sequence of
  \<^verbatim>\<open>make_assignment\<close> and \<^verbatim>\<open>initialize_fresh_state\<close> calls, two entries of the
  assignments map that share a slot and a composite room key, or a slot and a staff id,
  are the same entry; and the room index and the staff index (each a dictionary, so
  holding at most one block id per key and slot) record exactly the stored assignments.
\<close>

theorem reachable_no_double_booking:
  "reachable cm \<Longrightarrow>
     no_double_booking (current_assignments cm) \<and> room_index_agrees cm \<and> staff_index_agrees cm"
  using reachable_consistent [of cm] consistent_no_double_booking [of cm]
  by (simp add: consistent_def)

theorem reachable_no_double_booking_witness:
  "reachable (snd (make_assignment ex_cm1 (block_id ex_block_lab) ex_a_clash))
   \<and> no_double_booking (current_assignments (snd (make_assignment ex_cm1 (block_id ex_block_lab) ex_a_clash)))
   \<and> room_index_agrees (snd (make_assignment ex_cm1 (block_id ex_block_lab) ex_a_clash))
   \<and> staff_index_agrees (snd (make_assignment ex_cm1 (block_id ex_block_lab) ex_a_clash))"
proof -
  have r: "reachable (snd (make_assignment ex_cm1 (block_id ex_block_lab) ex_a_clash))"
    by (intro reachable_assign ex_cm1_reachable)
  from r reachable_no_double_booking [OF r] show ?thesis by simp
qed

text \<open>
  C10 (the commit checks double booking only). In a reachable state,
  \<^verbatim>\<open>make_assignment\<close> succeeds and stores the assignment whenever the block id is not
  yet a key and the room key and the staff id are unbooked at the slot (H1 and H2);
  room availability (H3), the single-group rule (H4) and the room-kind and lab rules (H5)
  are not consulted. The witness commits an assignment that fails H3, H4 and H5.
\<close>

theorem make_assignment_checks_double_booking_only:
  assumes "reachable cm"
    and "bid \<notin> set (dict_keys (current_assignments cm))"
    and "check_room_booking cm (block a) (time_slot a) (room a)"
    and "check_staff_booking cm (block a) (time_slot a) (room a)"
  shows "fst (make_assignment cm bid a)
         \<and> current_assignments (snd (make_assignment cm bid a)) = current_assignments cm @ [(bid, a)]"
proof -
  from assms have ok: "fst (make_assignment cm bid a)"
    by (intro make_assignment_unbooked_succeeds reachable_consistent)
  with make_assignment_cases [of cm bid a] show ?thesis
    by (auto simp: committed_def Let_def)
qed

theorem make_assignment_checks_double_booking_only_witness:
  "\<not> check_room_availability ex_cm1 (block ex_a_bad) (time_slot ex_a_bad) (room ex_a_bad)
   \<and> \<not> check_single_group_conflict ex_cm1 (block ex_a_bad) (time_slot ex_a_bad) (room ex_a_bad)
   \<and> \<not> check_lab_requirements ex_cm1 (block ex_a_bad) (time_slot ex_a_bad) (room ex_a_bad)
   \<and> \<not> fst (can_assign ex_cm1 (block ex_a_bad) (time_slot ex_a_bad) (room ex_a_bad))
   \<and> fst (make_assignment ex_cm1 (block_id ex_block_lab) ex_a_bad)
   \<and> current_assignments (snd (make_assignment ex_cm1 (block_id ex_block_lab) ex_a_bad))
       = current_assignments ex_cm1 @ [(block_id ex_block_lab, ex_a_bad)]"
proof -
  have h1: "block_id ex_block_lab \<notin> set (dict_keys (current_assignments ex_cm1))"
    by (simp add: ex_cm1_assignments dict_keys_def ex_block_lab_def ex_block_lecture_def
        lecture_block_def lab_block_def)
  have h2: "check_room_booking ex_cm1 (block ex_a_bad) (time_slot ex_a_bad) (room ex_a_bad)"
    by (simp add: ex_cm1_def cm_defs check_room_booking_def ex_defs)
  have h3: "check_staff_booking ex_cm1 (block ex_a_bad) (time_slot ex_a_bad) (room ex_a_bad)"
    by (simp add: ex_cm1_def cm_defs check_staff_booking_def ex_defs)
  have v3: "\<not> check_room_availability ex_cm1 (block ex_a_bad) (time_slot ex_a_bad) (room ex_a_bad)"
    by (simp add: check_room_availability_def ex_defs)
  have v4: "\<not> check_single_group_conflict ex_cm1 (block ex_a_bad) (time_slot ex_a_bad) (room ex_a_bad)"
    by (simp add: ex_cm1_def cm_defs check_single_group_conflict_def ex_defs)
  have v5: "\<not> check_lab_requirements ex_cm1 (block ex_a_bad) (time_slot ex_a_bad) (room ex_a_bad)"
    by (simp add: check_lab_requirements_def ex_defs)
  have v: "\<not> fst (can_assign ex_cm1 (block ex_a_bad) (time_slot ex_a_bad) (room ex_a_bad))"
    using v3 by (simp add: can_assign_def)
  show ?thesis
    using v3 v4 v5 v
      make_assignment_checks_double_booking_only [OF ex_cm1_reachable h1 h2 h3]
    by simp
qed

section \<open>Candidate rooms, candidate slots and the time grid\<close>

lemma gate_ceiling: "(real_of_int n * 0.8 \<le> real_of_int c) = (\<lceil>real_of_int n * 0.8\<rceil> \<le> c)"
  by (simp add: ceiling_le_iff)

lemma get_suitable_rooms_eq:
  "get_suitable_rooms rm b default_capacity_ratio =
     sort_key (fit b) (filter (capacity_gate b) (kind_appropriate rm b))"
proof -
  have fit_eq: "(\<lambda>r. \<bar>capacity r - student_count b\<bar>) = fit b"
    by (simp add: fit_def fun_eq_iff)
  show ?thesis
    unfolding get_suitable_rooms_def kind_appropriate_def capacity_gate_def default_capacity_ratio_def Let_def fit_eq
    by (simp add: filter_map comp_def ceiling_le_iff)
qed



lemma insort_key_bool_skip:
  fixes f :: "'a \<Rightarrow> bool"
  shows "\<forall>a \<in> set as. \<not> f a \<Longrightarrow> f x \<Longrightarrow> insort_key f x (as @ bs) = as @ insort_key f x bs"
  by (induction as) simp_all

lemma sort_key_bool:
  fixes f :: "'a \<Rightarrow> bool"
  shows "sort_key f xs = filter (\<lambda>x. \<not> f x) xs @ filter f xs"
proof (induction xs)
  case Nil
  show ?case by simp
next
  case (Cons x xs)
  show ?case
  proof (cases "f x")
    case True
    have "insort_key f x (filter (\<lambda>x. \<not> f x) xs @ filter f xs)
        = filter (\<lambda>x. \<not> f x) xs @ insort_key f x (filter f xs)"
      using True by (intro insort_key_bool_skip) simp_all
    also have "insort_key f x (filter f xs) = x # filter f xs"
      by (rule insort_is_Cons) simp
    finally show ?thesis using True Cons by simp
  next
    case False
    have "insort_key f x (filter (\<lambda>x. \<not> f x) xs @ filter f xs)
        = x # (filter (\<lambda>x. \<not> f x) xs @ filter f xs)"
      using False by (intro insort_is_Cons) simp
    then show ?thesis using False Cons by simp
  qed
qed

lemma sorted_reverse_bool:
  fixes f :: "'a \<Rightarrow> bool"
  shows "sorted_reverse f xs = filter f xs @ filter (\<lambda>x. \<not> f x) xs"
  by (simp add: sorted_reverse_def sort_key_bool rev_filter)
lemma to_time_preferences_keys:
  "to_time_preferences dur ks = Inr slots \<Longrightarrow> map slot_key_of slots = ks"
  by (induction dur ks arbitrary: slots rule: to_time_preferences.induct)
     (auto simp: slot_key_of_def split: sum.splits)

lemma to_time_preferences_end:
  "to_time_preferences dur ks = Inr slots \<Longrightarrow> s \<in> set slots \<Longrightarrow>
     mk_time (int (hour (start_time s)) + dur) 0 = Inr (end_time s)"
  by (induction dur ks arbitrary: slots rule: to_time_preferences.induct)
     (auto split: sum.splits)

lemma to_time_preferences_total:
  "(\<exists>slots. to_time_preferences dur ks = Inr slots) \<longleftrightarrow>
     (\<forall>(d, t) \<in> set ks. 0 \<le> int (hour t) + dur \<and> int (hour t) + dur \<le> 23)"
  by (induction dur ks rule: to_time_preferences.induct)
     (auto simp: mk_time_def split: sum.splits if_splits)

lemma set_iter_set: "iteration_order set_iter \<Longrightarrow> set (set_iter xs) = set xs"
  unfolding iteration_order_def by (metis set_mset_mset)

lemma set_iter_distinct: "iteration_order set_iter \<Longrightarrow> distinct (set_iter xs) = distinct xs"
  unfolding iteration_order_def by (metis mset_eq_imp_distinct_iff)

lemma available_slots_lecturer:
  assumes "iteration_order set_iter" and "\<not> isinstance_TeachingAssistant (staff_member b)"
    and "get_available_slots set_iter rm b r xs = Inr slots"
  shows "set (map slot_key_of slots) = set (free_slot_keys r xs) \<inter> preferred_keys b"
    and "distinct (map slot_key_of slots)"
proof -
  from assms have k: "map slot_key_of slots =
      set_iter (filter (\<lambda>x. x \<in> preferred_keys b) (free_slot_keys r xs))"
    by (auto simp: get_available_slots_def Let_def free_slot_keys_def preferred_keys_def
        dest!: to_time_preferences_keys)
  show "set (map slot_key_of slots) = set (free_slot_keys r xs) \<inter> preferred_keys b"
    unfolding k set_iter_set [OF assms(1)] by auto
  show "distinct (map slot_key_of slots)"
    unfolding k set_iter_distinct [OF assms(1)] by (simp add: free_slot_keys_def)
qed

lemma available_slots_ta:
  assumes "iteration_order set_iter" and "isinstance_TeachingAssistant (staff_member b)"
    and "get_available_slots set_iter rm b r xs = Inr slots"
  shows "mset (map slot_key_of slots) = mset (free_slot_keys r xs)"
    and "preferred_first b (map slot_key_of slots)"
proof -
  from assms have k: "map slot_key_of slots =
      sorted_reverse (\<lambda>x. x \<in> preferred_keys b) (set_iter (free_slot_keys r xs))"
    by (auto simp: get_available_slots_def Let_def free_slot_keys_def preferred_keys_def
        dest!: to_time_preferences_keys)
  have "mset (sorted_reverse (\<lambda>x. x \<in> preferred_keys b) (set_iter (free_slot_keys r xs)))
      = mset (set_iter (free_slot_keys r xs))"
    by (simp add: sorted_reverse_def)
  with assms(1) show "mset (map slot_key_of slots) = mset (free_slot_keys r xs)"
    by (simp add: k iteration_order_def)
  show "preferred_first b (map slot_key_of slots)"
    by (simp add: k preferred_first_def sorted_reverse_bool)
qed

lemma generate_time_slots_default: "generate_time_slots 2 0 = Some (Inr time_grid)"
  by (simp add: generate_time_slots_def working_days_def generate_day_slots.simps mk_time_def
      hour_def time_grid_def day_starts_def)

lemma generate_base_availability_grid: "generate_base_availability = Inr time_grid"
  by (simp add: generate_base_availability_def working_days_def mk_time_def hour_def
      time_grid_def day_starts_def)

lemma monday_13_not_in_grid: "(MONDAY, (13, 0)) \<notin> slot_key_of ` set time_grid"
  by (simp add: time_grid_def working_days_def day_starts_def slot_key_of_def)


lemma new_ResourceManager_default:
  "new_ResourceManager [ex_hall1, ex_hall2] [ex_lab1] 2 0 = Some (Inr ex_rm)"
  by (simp add: new_ResourceManager_def generate_time_slots_default ex_rm_def)




section \<open>The placement loop and the attempt loop\<close>

lemma lecturer_or_ta: "isinstance_Lecturer s \<longleftrightarrow> \<not> isinstance_TeachingAssistant s"
  by (cases s) simp_all

lemma check_lab_requirements_any: "check_lab_requirements cm b slot r = check_lab_requirements cm' b slot r"
  by (simp add: check_lab_requirements_def)

lemma first_valid_slot_Some:
  "first_valid_slot cm b r slots = Some a \<Longrightarrow>
     block a = b \<and> room a = r \<and> time_slot a \<in> set slots \<and> fst (can_assign cm b (time_slot a) r)"
  by (induction slots) (auto split: if_splits)

lemma schedule_in_rooms_Some:
  "schedule_in_rooms set_iter rm cm b rooms = Inr (Some a) \<Longrightarrow>
     block a = b \<and> room a \<in> set rooms
     \<and> (\<exists>slots. get_available_slots set_iter rm b (room a) (current_assignments cm) = Inr slots
          \<and> time_slot a \<in> set slots)
     \<and> fst (can_assign cm b (time_slot a) (room a))"
proof (induction rooms)
  case Nil
  then show ?case by simp
next
  case (Cons r rooms)
  show ?case
  proof (cases "get_available_slots set_iter rm b r (current_assignments cm)")
    case (Inl e)
    with Cons.prems show ?thesis by (simp add: get_all_assignments_def)
  next
    case (Inr slots)
    show ?thesis
    proof (cases "first_valid_slot cm b r slots")
      case None
      with Inr Cons show ?thesis by (simp add: get_all_assignments_def)
    next
      case (Some a')
      with Inr Cons.prems have "a' = a" by (simp add: get_all_assignments_def)
      with Some Inr first_valid_slot_Some [of cm b r slots a] show ?thesis by auto
    qed
  qed
qed

lemma can_assign_checks:
  "fst (can_assign cm b slot r) \<Longrightarrow>
     check_room_booking cm b slot r \<and> check_staff_booking cm b slot r
     \<and> check_room_availability cm b slot r \<and> check_single_group_conflict cm b slot r
     \<and> check_lab_requirements cm b slot r"
  by (simp add: can_assign_def split: if_splits)

lemma available_slot_member:
  assumes it: "iteration_order set_iter"
    and g: "get_available_slots set_iter rm b r xs = Inr slots"
    and s: "s \<in> set slots"
  shows "slot_key_of s \<in> set (free_slot_keys r xs)"
    and "isinstance_Lecturer (staff_member b) \<Longrightarrow> slot_key_of s \<in> preferred_keys b"
    and "mk_time (int (hour (start_time s)) + time_slot_duration rm) 0 = Inr (end_time s)"
proof -
  from s have m: "slot_key_of s \<in> set (map slot_key_of slots)" by simp
  show "slot_key_of s \<in> set (free_slot_keys r xs)"
  proof (cases "isinstance_TeachingAssistant (staff_member b)")
    case True
    from available_slots_ta(1) [OF it True g]
    have "set (map slot_key_of slots) = set (free_slot_keys r xs)" by (rule mset_eq_setD)
    with m show ?thesis by simp
  next
    case False
    from available_slots_lecturer(1) [OF it False g] m show ?thesis by blast
  qed
  show "slot_key_of s \<in> preferred_keys b" if "isinstance_Lecturer (staff_member b)"
  proof -
    from that have "\<not> isinstance_TeachingAssistant (staff_member b)" by (simp add: lecturer_or_ta)
    from available_slots_lecturer(1) [OF it this g] m show ?thesis by blast
  qed
  from g s show "mk_time (int (hour (start_time s)) + time_slot_duration rm) 0 = Inr (end_time s)"
    by (auto simp: get_available_slots_def Let_def intro: to_time_preferences_end)
qed

lemma free_slot_keys_subset: "set (free_slot_keys r xs) \<subseteq> set (map slot_key_of (availability r))"
  by (auto simp: free_slot_keys_def)

lemma schedule_single_block_Some:
  assumes it: "iteration_order set_iter"
    and s: "schedule_single_block set_iter rm cm b = Inr (Some a)"
  shows "block a = b" and "placed_by rm a" and "fst (can_assign cm b (time_slot a) (room a))"
proof -
  from schedule_in_rooms_Some [OF s [unfolded schedule_single_block_def]]
  obtain slots where b: "block a = b"
    and r: "room a \<in> set (get_suitable_rooms rm b default_capacity_ratio)"
    and g: "get_available_slots set_iter rm b (room a) (current_assignments cm) = Inr slots"
    and m: "time_slot a \<in> set slots"
    and c: "fst (can_assign cm b (time_slot a) (room a))"
    by blast
  show "block a = b" by (rule b)
  show "fst (can_assign cm b (time_slot a) (room a))" by (rule c)
  from can_assign_checks [OF c]
  have av: "availability_scan (time_slot a) (availability (room a))"
    and lab: "check_lab_requirements new_ConstraintManager b (time_slot a) (room a)"
    by (simp_all add: check_room_availability_def check_lab_requirements_any [of cm _ _ _ new_ConstraintManager])
  from available_slot_member [OF it g m] free_slot_keys_subset [of "room a" "current_assignments cm"]
  show "placed_by rm a"
    unfolding placed_by_def using b r av lab by auto
qed

lemma make_assignment_entries:
  "make_assignment cm bid a = (ok, cm') \<Longrightarrow>
     (ok \<and> current_assignments cm' = current_assignments cm @ [(bid, a)]) \<or> (\<not> ok \<and> cm' = cm)"
  using make_assignment_cases [of cm bid a] by (auto simp: committed_def Let_def)

text \<open>Every entry of an attempt was put there by the placement loop.\<close>

lemma place_blocks_entries:
  assumes it: "iteration_order set_iter"
  shows "place_blocks set_iter rm cm n bs = Inr (n', cm') \<Longrightarrow> (bid, a) \<in> set (current_assignments cm') \<Longrightarrow>
     (bid, a) \<in> set (current_assignments cm)
     \<or> (bid = block_id (block a) \<and> block a \<in> set bs \<and> placed_by rm a)"
proof (induction bs arbitrary: cm n)
  case Nil
  then show ?case by simp
next
  case (Cons b bs)
  show ?case
  proof (cases "schedule_single_block set_iter rm cm b")
    case (Inl e)
    with Cons.prems show ?thesis by simp
  next
    case (Inr opt)
    show ?thesis
    proof (cases opt)
      case None
      with Inr Cons.prems have "place_blocks set_iter rm cm n bs = Inr (n', cm')" by simp
      from Cons.IH [OF this Cons.prems(2)] show ?thesis by auto
    next
      case (Some a0)
      obtain ok cm1 where ma: "make_assignment cm (block_id b) a0 = (ok, cm1)"
        by (cases "make_assignment cm (block_id b) a0")
      from Inr Some ma Cons.prems(1)
      have rest: "place_blocks set_iter rm cm1 (if ok then n + 1 else n) bs = Inr (n', cm')"
        by (cases ok) simp_all
      from Inr Some schedule_single_block_Some [OF it, of rm cm b a0]
      have a0: "block a0 = b" "placed_by rm a0" by simp_all
      from Cons.IH [OF rest Cons.prems(2)]
      have "(bid, a) \<in> set (current_assignments cm1)
        \<or> (bid = block_id (block a) \<and> block a \<in> set bs \<and> placed_by rm a)" .
      with make_assignment_entries [OF ma] a0 show ?thesis by auto
    qed
  qed
qed

lemma place_blocks_count:
  "place_blocks set_iter rm cm n bs = Inr (n', cm') \<Longrightarrow>
     n' + length (current_assignments cm) = n + length (current_assignments cm')"
proof (induction bs arbitrary: cm n)
  case Nil
  then show ?case by simp
next
  case (Cons b bs)
  show ?case
  proof (cases "schedule_single_block set_iter rm cm b")
    case (Inl e)
    with Cons.prems show ?thesis by simp
  next
    case (Inr opt)
    show ?thesis
    proof (cases opt)
      case None
      with Inr Cons show ?thesis by simp
    next
      case (Some a0)
      obtain ok cm1 where ma: "make_assignment cm (block_id b) a0 = (ok, cm1)"
        by (cases "make_assignment cm (block_id b) a0")
      from Inr Some ma Cons.prems(1)
      have rest: "place_blocks set_iter rm cm1 (if ok then n + 1 else n) bs = Inr (n', cm')"
        by (cases ok) simp_all
      from Cons.IH [OF rest] make_assignment_entries [OF ma] show ?thesis
        by (auto split: if_splits)
    qed
  qed
qed

lemma find_block_entry:
  "distinct (map fst xs) \<Longrightarrow> keyed_by_block_id xs \<Longrightarrow> (bid, a) \<in> set xs \<Longrightarrow>
     find_block bid (map snd xs) = Some (block a)"
proof (induction xs)
  case Nil
  then show ?case by simp
next
  case (Cons x xs)
  obtain b0 a0 where x: "x = (b0, a0)" by (cases x)
  from Cons.prems(2) x have k0: "b0 = block_id (block a0)" and kt: "keyed_by_block_id xs"
    by (simp_all add: keyed_by_block_id_def)
  show ?case
  proof (cases "block_id (block a0) = bid")
    case True
    with k0 have "b0 = bid" by simp
    with Cons.prems(1,3) x have "a = a0"
      by (auto simp: image_iff)
    with True x show ?thesis by simp
  next
    case False
    with Cons.prems(3) x k0 have "(bid, a) \<in> set xs" by auto
    with Cons.IH Cons.prems(1) kt False x show ?thesis by simp
  qed
qed

lemma collect_member:
  "find_block bid vals = Some b' \<Longrightarrow> bid \<in> set ids \<Longrightarrow> b' \<in> set (collect_existing_blocks ids vals)"
  by (induction ids) (auto split: option.splits)

lemma existing_scan_True:
  "existing_scan b bs \<Longrightarrow> e \<in> set bs \<Longrightarrow> \<not> is_single_group_course e"
  by (induction bs) (auto split: if_splits)

lemma cohort_check:
  assumes inv: "cohort_inv cm"
    and chk: "check_single_group_conflict cm b slot r"
    and m: "(bid', a') \<in> set (current_assignments cm)"
    and k: "sp_key a' = (academic_list b, day slot, start_time slot)"
  shows "\<not> is_single_group_course b \<and> \<not> is_single_group_course (block a')"
proof -
  let ?k = "(academic_list b, day slot, start_time slot)"
  let ?ids = "map fst (filter (\<lambda>(bid, a). sp_key a = ?k) (current_assignments cm))"
  from m k have mem: "bid' \<in> set ?ids" by force
  have ne: "?ids \<noteq> []"
    using length_pos_if_in_set [OF mem] by blast
  from inv have "study_plan_slots (state cm) ?k = (if ?ids = [] then None else Some ?ids)"
    unfolding cohort_inv_def study_plan_index_agrees_def Let_def by blast
  with ne have sp: "study_plan_slots (state cm) ?k = Some ?ids" by simp
  from chk sp have ns: "\<not> is_single_group_course b"
    and scan: "existing_scan b (collect_existing_blocks ?ids (dict_values (current_assignments cm)))"
    by (simp_all add: check_single_group_conflict_def Let_def split: if_splits)
  from inv m have "find_block bid' (map snd (current_assignments cm)) = Some (block a')"
    by (intro find_block_entry) (simp_all add: cohort_inv_def dict_keys_def)
  from collect_member [OF this mem]
  have "block a' \<in> set (collect_existing_blocks ?ids (dict_values (current_assignments cm)))"
    by (simp add: dict_values_def)
  from existing_scan_True [OF scan this] ns show ?thesis by simp
qed

lemma cohort_inv_fresh: "cohort_inv (initialize_fresh_state cm)"
  by (simp add: cohort_inv_def initialize_fresh_state_def dict_keys_def keyed_by_block_id_def
      study_plan_index_agrees_def single_group_exclusive_def create_empty_def)

lemma cohort_inv_committed:
  assumes inv: "cohort_inv cm" and c: "committed cm bid a cm'"
    and fresh: "bid \<notin> set (dict_keys (current_assignments cm))"
    and bid: "bid = block_id (block a)"
    and chk: "check_single_group_conflict cm (block a) (time_slot a) (room a)"
  shows "cohort_inv cm'"
proof -
  from c have as: "current_assignments cm' = current_assignments cm @ [(bid, a)]"
    and sp: "study_plan_slots (state cm') =
          (study_plan_slots (state cm))
            (sp_key a \<mapsto> (case study_plan_slots (state cm) (sp_key a) of None \<Rightarrow> [] | Some l \<Rightarrow> l) @ [bid])"
    by (simp_all add: committed_def Let_def sp_key_def)
  from inv have d: "distinct (dict_keys (current_assignments cm))"
    and kb: "keyed_by_block_id (current_assignments cm)"
    and ix: "\<And>k. study_plan_slots (state cm) k =
        (if map fst (filter (\<lambda>(bid, a). sp_key a = k) (current_assignments cm)) = [] then None
         else Some (map fst (filter (\<lambda>(bid, a). sp_key a = k) (current_assignments cm))))"
    and ex: "single_group_exclusive (current_assignments cm)"
    unfolding cohort_inv_def study_plan_index_agrees_def Let_def by blast+
  have d': "distinct (dict_keys (current_assignments cm'))"
    using d fresh by (simp add: as dict_keys_def)
  have kb': "keyed_by_block_id (current_assignments cm')"
    using kb bid by (simp add: as keyed_by_block_id_def)
  have old: "(case study_plan_slots (state cm) (sp_key a) of None \<Rightarrow> [] | Some l \<Rightarrow> l)
      = map fst (filter (\<lambda>(bid, a'). sp_key a' = sp_key a) (current_assignments cm))"
    by (simp add: ix [of "sp_key a"])
  have ix': "study_plan_index_agrees cm'"
    unfolding study_plan_index_agrees_def Let_def
  proof
    fix k
    show "study_plan_slots (state cm') k =
        (if map fst (filter (\<lambda>(bid, a). sp_key a = k) (current_assignments cm')) = [] then None
         else Some (map fst (filter (\<lambda>(bid, a). sp_key a = k) (current_assignments cm'))))"
    proof (cases "k = sp_key a")
      case True
      then show ?thesis by (simp add: sp as old)
    next
      case False
      then show ?thesis using ix [of k] by (simp add: sp as)
    qed
  qed
  have clash: "\<And>b' a'. (b', a') \<in> set (current_assignments cm) \<Longrightarrow> sp_key a' = sp_key a \<Longrightarrow>
      \<not> is_single_group_course (block a) \<and> \<not> is_single_group_course (block a')"
    using cohort_check [OF inv chk] by (simp add: sp_key_def)
  have ex': "single_group_exclusive (current_assignments cm')"
    unfolding single_group_exclusive_def as
  proof (intro ballI, clarify)
    fix b1 a1 b2 a2
    assume m1: "(b1, a1) \<in> set (current_assignments cm @ [(bid, a)])"
      and m2: "(b2, a2) \<in> set (current_assignments cm @ [(bid, a)])"
      and k: "sp_key a1 = sp_key a2" and s: "is_single_group_course (block a1)"
    consider (oo) "(b1, a1) \<in> set (current_assignments cm)" "(b2, a2) \<in> set (current_assignments cm)"
      | (on) "(b1, a1) \<in> set (current_assignments cm)" "(b2, a2) = (bid, a)"
      | (no) "(b1, a1) = (bid, a)" "(b2, a2) \<in> set (current_assignments cm)"
      | (nn) "(b1, a1) = (bid, a)" "(b2, a2) = (bid, a)"
      using m1 m2 by auto
    then show "b1 = b2 \<and> a1 = a2"
    proof cases
      case oo
      with ex k s show ?thesis unfolding single_group_exclusive_def by blast
    next
      case on
      with clash [of b1 a1] k s show ?thesis by simp
    next
      case no
      with clash [of b2 a2] k s show ?thesis by simp
    next
      case nn
      then show ?thesis by simp
    qed
  qed
  from d' kb' ix' ex' show ?thesis by (simp add: cohort_inv_def)
qed

lemma cohort_inv_place_blocks:
  assumes it: "iteration_order set_iter"
  shows "cohort_inv cm \<Longrightarrow> place_blocks set_iter rm cm n bs = Inr (n', cm') \<Longrightarrow> cohort_inv cm'"
proof (induction bs arbitrary: cm n)
  case Nil
  then show ?case by simp
next
  case (Cons b bs)
  show ?case
  proof (cases "schedule_single_block set_iter rm cm b")
    case (Inl e)
    with Cons.prems show ?thesis by simp
  next
    case (Inr opt)
    show ?thesis
    proof (cases opt)
      case None
      with Inr Cons show ?thesis by simp
    next
      case (Some a0)
      obtain ok cm1 where ma: "make_assignment cm (block_id b) a0 = (ok, cm1)"
        by (cases "make_assignment cm (block_id b) a0")
      from Inr Some ma Cons.prems(2)
      have rest: "place_blocks set_iter rm cm1 (if ok then n + 1 else n) bs = Inr (n', cm')"
        by (cases ok) simp_all
      from Inr Some schedule_single_block_Some [OF it, of rm cm b a0]
      have a0: "block a0 = b" and ca: "fst (can_assign cm b (time_slot a0) (room a0))" by simp_all
      from can_assign_checks [OF ca] a0
      have chk: "check_single_group_conflict cm (block a0) (time_slot a0) (room a0)" by simp
      from make_assignment_cases [of cm "block_id b" a0]
      consider (unchanged) "make_assignment cm (block_id b) a0 = (False, cm)"
        | (stored) cm2 where "make_assignment cm (block_id b) a0 = (True, cm2)"
            "committed cm (block_id b) a0 cm2" "block_id b \<notin> set (dict_keys (current_assignments cm))"
        by blast
      then have "cohort_inv cm1"
      proof cases
        case unchanged
        with ma Cons.prems(1) show ?thesis by simp
      next
        case stored
        with ma have "cm2 = cm1" by simp
        with stored a0 chk Cons.prems(1) show ?thesis
          by (intro cohort_inv_committed [of cm "block_id b" a0 cm1]) simp_all
      qed
      from Cons.IH [OF this rest] show ?thesis .
    qed
  qed
qed

lemma better_iff:
  "better (cur, s, c) (ba, bs, bc) \<longleftrightarrow> c > bc \<or> (c = bc \<and> s > bs)"
  by (auto simp: better_def attempt_key_def less_prod_def)

lemma attempt_loop_step:
  "attempt_loop body total_blocks (Suc k) i best =
     (case body i of
        Inl e \<Rightarrow> Inl e
      | Inr r \<Rightarrow>
          if stops total_blocks r then Inr (keep_best best r)
          else attempt_loop body total_blocks k (Suc i) (keep_best best r))"
  by (cases best) (auto simp: keep_best_def better_iff stops_def Let_def split: sum.splits)


lemma better_irrefl: "\<not> better r r"
  by (simp add: better_def)





lemma not_better_count: "\<not> better r1 r2 \<Longrightarrow> snd (snd r1) \<le> snd (snd r2)"
  by (auto simp: better_def attempt_key_def less_prod_def not_less)

lemma not_better_init: "\<not> better r ([], 0, 0) \<Longrightarrow> snd (snd r) = 0"
  using not_better_count [of r "([], 0, 0)"] by simp

lemma best_of_attempts_fold:
  "attempt_loop body total_blocks max_attempts 0 ([], 0, 0) = Inr B \<Longrightarrow>
     best_of_attempts body total_blocks max_attempts
       = (if fst B = [] then Inl NoValidSchedule else Inr (fst B))"
  by (cases B) (simp add: best_of_attempts_def)

lemma attempt_loop_origin:
  "attempt_loop body total_blocks k i best = Inr B \<Longrightarrow> B = best \<or> (\<exists>j. body j = Inr B)"
proof (induction k arbitrary: i best)
  case 0
  then show ?case by simp
next
  case (Suc k)
  from Suc.prems obtain r where bi: "body i = Inr r"
    by (cases "body i") (simp_all add: attempt_loop_step)
  have kb: "keep_best best r = best \<or> keep_best best r = r" by (simp add: keep_best_def)
  show ?case
  proof (cases "stops total_blocks r")
    case True
    with Suc.prems bi have "B = keep_best best r" by (simp add: attempt_loop_step)
    with kb bi show ?thesis by auto
  next
    case False
    with Suc.prems bi have "attempt_loop body total_blocks k (Suc i) (keep_best best r) = Inr B"
      by (simp add: attempt_loop_step)
    from Suc.IH [OF this] kb bi show ?thesis by auto
  qed
qed

lemma best_of_attempts_Inr:
  assumes "best_of_attempts body total_blocks max_attempts = Inr sched"
  shows "\<exists>j s n. body j = Inr (sched, s, n)"
proof -
  from assms obtain B where l: "attempt_loop body total_blocks max_attempts 0 ([], 0, 0) = Inr B"
    by (cases "attempt_loop body total_blocks max_attempts 0 ([], 0, 0)") (simp_all add: best_of_attempts_def)
  from assms best_of_attempts_fold [OF l] have ne: "fst B \<noteq> []" and s: "sched = fst B"
    by (simp_all split: if_splits)
  from attempt_loop_origin [OF l] ne obtain j where "body j = Inr B" by auto
  with s show ?thesis by (cases B) auto
qed

lemma schedule_blocks_Inr:
  assumes "schedule_blocks set_iter rm cm course_assignments study_plan_mapping max_attempts = Inr sched"
  shows "\<exists>blocks s n. convert_course_assignments_to_blocks course_assignments study_plan_mapping = Inr blocks
           \<and> run_attempt set_iter rm cm blocks = Inr (sched, s, n)"
proof -
  from assms obtain blocks where c: "convert_course_assignments_to_blocks course_assignments study_plan_mapping = Inr blocks"
    and b: "best_of_attempts (\<lambda>attempt. run_attempt set_iter rm cm blocks) (length blocks) max_attempts = Inr sched"
    by (auto simp: schedule_blocks_def split: sum.splits)
  from best_of_attempts_Inr [OF b] c show ?thesis by blast
qed

lemma block_scores_snd: "block_scores set_iter rm cm bs = Inr keyed \<Longrightarrow> map snd keyed = bs"
  by (induction bs arbitrary: keyed) (auto split: sum.splits)

lemma mset_sorted_reverse: "mset (sorted_reverse f xs) = mset xs"
  by (simp add: sorted_reverse_def)

lemma sort_blocks_set:
  assumes "sort_blocks_by_priority set_iter rm cm blocks = Inr sorted_blocks"
  shows "set sorted_blocks = set blocks"
proof -
  from assms obtain keyed where k: "block_scores set_iter rm cm blocks = Inr keyed"
    and s: "sorted_blocks = map snd (sorted_reverse fst keyed)"
    by (auto simp: sort_blocks_by_priority_def split: sum.splits)
  have "mset sorted_blocks = mset (map snd keyed)"
    by (simp add: s mset_sorted_reverse)
  with block_scores_snd [OF k] show ?thesis by (metis set_mset_mset)
qed

lemma consistent_place_blocks:
  "consistent cm \<Longrightarrow> place_blocks set_iter rm cm n bs = Inr (n', cm') \<Longrightarrow> consistent cm'"
proof (induction bs arbitrary: cm n)
  case Nil
  then show ?case by simp
next
  case (Cons b bs)
  show ?case
  proof (cases "schedule_single_block set_iter rm cm b")
    case (Inl e)
    with Cons.prems show ?thesis by simp
  next
    case (Inr opt)
    show ?thesis
    proof (cases opt)
      case None
      with Inr Cons show ?thesis by simp
    next
      case (Some a0)
      obtain ok cm1 where ma: "make_assignment cm (block_id b) a0 = (ok, cm1)"
        by (cases "make_assignment cm (block_id b) a0")
      from Inr Some ma Cons.prems(2)
      have rest: "place_blocks set_iter rm cm1 (if ok then n + 1 else n) bs = Inr (n', cm')"
        by (cases ok) simp_all
      from consistent_make_assignment [OF Cons.prems(1), of "block_id b" a0] ma
      have "consistent cm1" by simp
      from Cons.IH [OF this rest] show ?thesis .
    qed
  qed
qed

text \<open>What holds of the assignments of one attempt.\<close>

lemma run_attempt_Inr:
  assumes it: "iteration_order set_iter"
    and r: "run_attempt set_iter rm cm blocks = Inr (cur, s, n)"
  shows "n = length cur" and "single_group_exclusive cur" and "no_double_booking cur"
    and "distinct (dict_keys cur)"
    and "\<And>bid a. (bid, a) \<in> set cur \<Longrightarrow> bid = block_id (block a) \<and> block a \<in> set blocks \<and> placed_by rm a"
proof -
  let ?cm0 = "initialize_fresh_state cm"
  from r obtain sorted_blocks cm1 where so: "sort_blocks_by_priority set_iter rm ?cm0 blocks = Inr sorted_blocks"
    and pl: "place_blocks set_iter rm ?cm0 0 sorted_blocks = Inr (n, cm1)"
    and cur: "cur = current_assignments cm1"
    by (auto simp: run_attempt_def Let_def get_all_assignments_def split: sum.splits)
  have e: "current_assignments ?cm0 = []" by (simp add: initialize_fresh_state_def)
  from place_blocks_count [OF pl] show "n = length cur" by (simp add: cur e)
  from cohort_inv_place_blocks [OF it cohort_inv_fresh pl]
  show "single_group_exclusive cur" by (simp add: cohort_inv_def cur)
  from consistent_place_blocks [OF consistent_reset pl] have c: "consistent cm1" .
  from consistent_no_double_booking [OF c] show "no_double_booking cur" by (simp add: cur)
  from c show "distinct (dict_keys cur)" by (simp add: consistent_def cur)
  fix bid a assume "(bid, a) \<in> set cur"
  with place_blocks_entries [OF it pl, of bid a] sort_blocks_set [OF so]
  show "bid = block_id (block a) \<and> block a \<in> set blocks \<and> placed_by rm a"
    by (simp add: cur e)
qed

section \<open>The engine on the example inputs\<close>

lemma ex_AB: "schedule_blocks insertion_order ex_rm new_ConstraintManager [ex_courseA, ex_courseB] ex_mapping2 1 = Inr ex_sched_AB"
  by code_simp

lemma ex_single: "schedule_blocks insertion_order ex_rm new_ConstraintManager [ex_course1] ex_mapping1 1 = Inr ex_sched_single"
  by code_simp

lemma ex_hall_lab: "schedule_blocks insertion_order ex_rm new_ConstraintManager [ex_course_hall_lab] ex_mapping1 1 = Inr ex_sched_hall_lab"
  by code_simp



lemma ex_mon: "schedule_blocks insertion_order ex_rm_grid new_ConstraintManager [ex_course_mon] ex_mapping1 1 = Inr ex_sched_mon"
  by code_simp

lemma ex_AB_P6: "\<not> cohort_invariant_P6 ex_sched_AB"
  by code_simp

lemma ex_hall_lab_P5: "\<not> room_invariant_P5 ex_sched_hall_lab"
  by code_simp


lemma ex_grid: "rooms_on_grid ex_rm_grid [ex_course_mon]"
  by code_simp

lemma insertion_order_ok: "iteration_order insertion_order"
  by (simp add: iteration_order_def insertion_order_def)


section \<open>Properties of every returned schedule\<close>

lemma lecture_blocks_props:
  "b \<in> set (lecture_blocks c sp ls n) \<Longrightarrow> required_room_type b = ''hall'' \<and> preferred_rooms b = []"
  by (induction c sp ls n rule: lecture_blocks.induct)
     (auto simp: lecture_block_def split: if_splits)

lemma lab_blocks_props:
  "b \<in> set (lab_blocks c sp ts n) \<Longrightarrow>
     (required_room_type b = ''hall'' \<or> required_room_type b = ''lab'')
     \<and> preferred_rooms b = map IsLab (preferred_labs c)"
  by (induction c sp ts n rule: lab_blocks.induct)
     (auto simp: lab_block_def split: if_splits)

lemma course_blocks_props:
  assumes "b \<in> set (course_blocks c sp)"
  shows "required_room_type b = ''hall'' \<or> required_room_type b = ''lab''"
    and "set (preferred_rooms b) \<subseteq> IsLab ` set (preferred_labs c)"
  using assms lecture_blocks_props [of b c sp "lecturers c" 1]
    lab_blocks_props [of b c sp "teaching_assistants c" 1]
  by (auto simp: course_blocks_def split: if_splits)

lemma convert_loop_props:
  "convert_loop m i cs = Inr bs \<Longrightarrow> b \<in> set bs \<Longrightarrow>
     (required_room_type b = ''hall'' \<or> required_room_type b = ''lab'')
     \<and> set (preferred_rooms b) \<subseteq> IsLab ` set (concat (map preferred_labs cs))"
proof (induction cs arbitrary: i bs)
  case Nil
  then show ?case by simp
next
  case (Cons c cs)
  from Cons.prems(1) obtain sp bs' where sp: "m i = Some sp"
    and r: "convert_loop m (Suc i) cs = Inr bs'" and bs: "bs = course_blocks c sp @ bs'"
    by (auto split: option.splits sum.splits)
  from Cons.prems(2) bs consider "b \<in> set (course_blocks c sp)" | "b \<in> set bs'" by auto
  then show ?case
  proof cases
    case 1
    from course_blocks_props [OF 1] show ?thesis by auto
  next
    case 2
    from Cons.IH [OF r 2]
    have k: "required_room_type b = ''hall'' \<or> required_room_type b = ''lab''"
      and p: "set (preferred_rooms b) \<subseteq> IsLab ` set (concat (map preferred_labs cs))"
      by simp_all
    have "IsLab ` set (concat (map preferred_labs cs))
        \<subseteq> IsLab ` set (concat (map preferred_labs (c # cs)))"
      by (intro image_mono) auto
    with k p show ?thesis by blast
  qed
qed

lemma suitable_rooms_subset:
  "set (get_suitable_rooms rm b default_capacity_ratio) \<subseteq> set (kind_appropriate rm b)"
  by (simp add: get_suitable_rooms_eq)

lemma kind_appropriate_subset:
  "set (preferred_rooms b) \<subseteq> IsLab ` set (concat (map preferred_labs cas)) \<Longrightarrow>
     set (kind_appropriate rm b) \<subseteq> set (all_rooms rm cas)"
  by (auto simp: kind_appropriate_def all_rooms_def)

text \<open>The facts about every assignment of a returned schedule.\<close>

lemma schedule_blocks_entries:
  assumes it: "iteration_order set_iter"
    and s: "schedule_blocks set_iter rm cm cas spm max_attempts = Inr sched"
    and m: "(bid, a) \<in> set sched"
  shows "bid = block_id (block a)" and "placed_by rm a"
    and "required_room_type (block a) = ''hall'' \<or> required_room_type (block a) = ''lab''"
    and "room a \<in> set (all_rooms rm cas)"
proof -
  from schedule_blocks_Inr [OF s] obtain blocks sc n
    where c: "convert_course_assignments_to_blocks cas spm = Inr blocks"
      and r: "run_attempt set_iter rm cm blocks = Inr (sched, sc, n)"
    by blast
  from run_attempt_Inr(5) [OF it r m]
  have b: "bid = block_id (block a)" "block a \<in> set blocks" "placed_by rm a" by simp_all
  show "bid = block_id (block a)" and "placed_by rm a" by (rule b)+
  from convert_loop_props [OF c [unfolded convert_course_assignments_to_blocks_def] b(2)]
  have k: "required_room_type (block a) = ''hall'' \<or> required_room_type (block a) = ''lab''"
    and p: "set (preferred_rooms (block a)) \<subseteq> IsLab ` set (concat (map preferred_labs cas))"
    by simp_all
  show "required_room_type (block a) = ''hall'' \<or> required_room_type (block a) = ''lab''" by (rule k)
  from b(3) have "room a \<in> set (get_suitable_rooms rm (block a) default_capacity_ratio)"
    by (simp add: placed_by_def)
  with suitable_rooms_subset kind_appropriate_subset [OF p]
  show "room a \<in> set (all_rooms rm cas)" by blast
qed

lemma schedule_blocks_invariants:
  assumes it: "iteration_order set_iter"
    and s: "schedule_blocks set_iter rm cm cas spm max_attempts = Inr sched"
  shows "single_group_exclusive sched" and "no_double_booking sched" and "distinct (dict_keys sched)"
proof -
  from schedule_blocks_Inr [OF s] obtain blocks sc n
    where r: "run_attempt set_iter rm cm blocks = Inr (sched, sc, n)"
    by blast
  from run_attempt_Inr(2,3,4) [OF it r]
  show "single_group_exclusive sched" and "no_double_booking sched" and "distinct (dict_keys sched)"
    by simp_all
qed

text \<open>
  C3 (cohort invariant), as the engine enforces it. In every schedule returned by
  \<^verbatim>\<open>schedule_blocks\<close>, an assignment of a single-group block is the only assignment of
  its academic list at its day and start time (whatever the academic level, hence also
  the only one of its cohort). The second half of the claim does not hold:
  \<open>cohort_invariant_counterexample\<close> is a returned schedule in which two blocks of
  different courses, neither single-group, share the cohort and the slot.
\<close>

theorem schedule_single_group_exclusive:
  assumes "iteration_order set_iter"
    and "schedule_blocks set_iter rm cm course_assignments study_plan_mapping max_attempts = Inr sched"
  shows "single_group_exclusive sched"
  using schedule_blocks_invariants(1) [OF assms] .

theorem schedule_single_group_exclusive_witness:
  "iteration_order insertion_order
   \<and> schedule_blocks insertion_order ex_rm new_ConstraintManager [ex_course1] ex_mapping1 1 = Inr ex_sched_single
   \<and> single_group_exclusive ex_sched_single"
  using schedule_single_group_exclusive [OF insertion_order_ok ex_single] insertion_order_ok ex_single
  by simp

theorem cohort_invariant_counterexample:
  "schedule_blocks insertion_order ex_rm new_ConstraintManager [ex_courseA, ex_courseB] ex_mapping2 1
     = Inr ex_sched_AB
   \<and> \<not> cohort_invariant_P6 ex_sched_AB"
  using ex_AB ex_AB_P6 by simp

lemma placed_room_rules:
  assumes p: "placed_by rm a"
    and k: "required_room_type (block a) = ''hall'' \<or> required_room_type (block a) = ''lab''"
  shows "kind_matches a \<and> preferred_respected_lab a \<and> specialist_guard a"
proof -
  from p have c: "check_lab_requirements new_ConstraintManager (block a) (time_slot a) (room a)"
    by (simp add: placed_by_def)
  from k show ?thesis
  proof
    assume h: "required_room_type (block a) = ''hall''"
    with c have "isinstance_Hall (room a)"
      by (simp add: check_lab_requirements_def split: if_splits)
    with h show ?thesis
      by (cases "room a")
         (simp_all add: kind_matches_def preferred_respected_lab_def specialist_guard_def get_room_key_def)
  next
    assume l: "required_room_type (block a) = ''lab''"
    with c have "isinstance_Lab (room a)"
      and "preferred_rooms (block a) \<noteq> [] \<longrightarrow> room a \<in> set (preferred_rooms (block a))"
      and "preferred_rooms (block a) = [] \<longrightarrow> room_used_in_non_specialist_courses (room a)"
      by (simp_all add: check_lab_requirements_def split: if_splits)
    with l show ?thesis
      by (cases "room a")
         (simp_all add: kind_matches_def preferred_respected_lab_def specialist_guard_def get_room_key_def)
  qed
qed

text \<open>
  C4 (room kind and preferred rooms), as the engine enforces it. In every schedule
  returned by \<^verbatim>\<open>schedule_blocks\<close> the kind of the room is the required room type of the
  block; a block that requires a lab and has preferred rooms is in one of them; and a
  block without preferred rooms is never in a lab that is closed to non-specialist
  courses. Preferred rooms are read only for blocks that require a lab:
  \<open>room_invariant_counterexample\<close> is a returned schedule in which a lab block of
  a course that is not practical-in-lab has preferred labs and sits in a hall.
\<close>

theorem schedule_room_invariant:
  assumes "iteration_order set_iter"
    and "schedule_blocks set_iter rm cm course_assignments study_plan_mapping max_attempts = Inr sched"
  shows "room_invariant_lab sched"
  unfolding room_invariant_lab_def
  using schedule_blocks_entries(2,3) [OF assms] placed_room_rules by blast

theorem schedule_room_invariant_witness:
  "iteration_order insertion_order
   \<and> schedule_blocks insertion_order ex_rm new_ConstraintManager [ex_course1] ex_mapping1 1 = Inr ex_sched_single
   \<and> room_invariant_lab ex_sched_single"
  using schedule_room_invariant [OF insertion_order_ok ex_single] insertion_order_ok ex_single
  by simp

theorem room_invariant_counterexample:
  "schedule_blocks insertion_order ex_rm new_ConstraintManager [ex_course_hall_lab] ex_mapping1 1
     = Inr ex_sched_hall_lab
   \<and> \<not> room_invariant_P5 ex_sched_hall_lab"
  using ex_hall_lab ex_hall_lab_P5 by simp

text \<open>
  C8 (Monday 13:00 is never scheduled). If the availability of every hall, every lab and
  every preferred lab is a subset of the time grid (the list that both
  \<^verbatim>\<open>_generate_time_slots\<close> with its defaults and \<^verbatim>\<open>generate_base_availability\<close>
  produce, see \<open>generate_time_slots_default\<close> and \<open>generate_base_availability_grid\<close>),
  then no assignment of a schedule returned by \<^verbatim>\<open>schedule_blocks\<close> is on Monday at
  13:00, whatever the timing preferences of the staff are. In the witness the lecturer
  prefers Monday 13:00.
\<close>

theorem monday_13_never_scheduled:
  assumes "iteration_order set_iter"
    and "rooms_on_grid rm course_assignments"
    and "schedule_blocks set_iter rm cm course_assignments study_plan_mapping max_attempts = Inr sched"
  shows "no_monday_13 sched"
  unfolding no_monday_13_def
proof (intro ballI, clarify)
  fix bid a
  assume m: "(bid, a) \<in> set sched" and k: "slot_key_of (time_slot a) = (MONDAY, (13, 0))"
  from schedule_blocks_entries(2,4) [OF assms(1,3) m]
  have p: "placed_by rm a" and r: "room a \<in> set (all_rooms rm course_assignments)" .
  from p have "slot_key_of (time_slot a) \<in> slot_key_of ` set (availability (room a))"
    by (simp add: placed_by_def)
  moreover from assms(2) r have "set (availability (room a)) \<subseteq> set time_grid"
    by (simp add: rooms_on_grid_def)
  ultimately have "(MONDAY, (13, 0)) \<in> slot_key_of ` set time_grid"
    using k by auto
  with monday_13_not_in_grid show False by simp
qed

theorem monday_13_never_scheduled_witness:
  "iteration_order insertion_order
   \<and> rooms_on_grid ex_rm_grid [ex_course_mon]
   \<and> (MONDAY, (13, 0)) \<in> preferred_keys (lecture_block ex_course_mon ex_plan ex_lect_mon 1)
   \<and> schedule_blocks insertion_order ex_rm_grid new_ConstraintManager [ex_course_mon] ex_mapping1 1
       = Inr ex_sched_mon
   \<and> no_monday_13 ex_sched_mon"
proof -
  have "(MONDAY, (13, 0)) \<in> preferred_keys (lecture_block ex_course_mon ex_plan ex_lect_mon 1)"
    by (simp add: preferred_keys_def lecture_block_def timing_preferences_def ex_lect_mon_def
        ex_mon13_def slot_key_of_def)
  with monday_13_never_scheduled [OF insertion_order_ok ex_grid ex_mon] insertion_order_ok ex_grid ex_mon
  show ?thesis by simp
qed

lemma get_available_slots_total:
  assumes it: "iteration_order set_iter"
    and h: "\<forall>s \<in> set (availability r). 0 \<le> int (hour (start_time s)) + time_slot_duration rm
                \<and> int (hour (start_time s)) + time_slot_duration rm \<le> 23"
  shows "\<exists>slots. get_available_slots set_iter rm b r xs = Inr slots"
proof -
  have "\<And>ks. set ks \<subseteq> slot_key_of ` set (availability r) \<Longrightarrow>
      \<exists>slots. to_time_preferences (time_slot_duration rm) ks = Inr slots"
    unfolding to_time_preferences_total using h by (auto simp: slot_key_of_def)
  then show ?thesis
    unfolding get_available_slots_def Let_def
    by (auto simp: set_iter_set [OF it] mset_sorted_reverse [THEN mset_eq_setD] split: if_splits)
qed

text \<open>
  C5 (lecturer preferences are strict, TA preferences are soft). For a lecturer's block
  the slots that the enumeration returns are, by identity (day, start time), the free
  slots of the room that occur in the lecturer's timing preferences; for a teaching
  assistant's block they are exactly the free slots of the room, each once, with the
  preferred ones first; and in every schedule returned by \<^verbatim>\<open>schedule_blocks\<close> the
  slot of a lecturer's block occurs in the lecturer's timing preferences (P4).
\<close>

theorem candidate_slots_strict_and_soft:
  assumes "iteration_order set_iter"
  shows "(get_available_slots set_iter rm b r xs = Inr slots \<and> isinstance_Lecturer (staff_member b) \<longrightarrow>
            set (map slot_key_of slots) = set (free_slot_keys r xs) \<inter> preferred_keys b)
       \<and> (get_available_slots set_iter rm b r xs = Inr slots \<and> isinstance_TeachingAssistant (staff_member b) \<longrightarrow>
            mset (map slot_key_of slots) = mset (free_slot_keys r xs)
            \<and> preferred_first b (map slot_key_of slots))
       \<and> (schedule_blocks set_iter rm cm course_assignments study_plan_mapping max_attempts = Inr sched \<longrightarrow>
            lecturer_slots_preferred sched)"
proof (intro conjI impI)
  assume "get_available_slots set_iter rm b r xs = Inr slots \<and> isinstance_Lecturer (staff_member b)"
  then show "set (map slot_key_of slots) = set (free_slot_keys r xs) \<inter> preferred_keys b"
    using available_slots_lecturer(1) [OF assms, of b rm r xs slots] by (simp add: lecturer_or_ta)
next
  assume a: "get_available_slots set_iter rm b r xs = Inr slots \<and> isinstance_TeachingAssistant (staff_member b)"
  then show "mset (map slot_key_of slots) = mset (free_slot_keys r xs)"
    using available_slots_ta(1) [OF assms, of b rm r xs slots] by simp
  from a show "preferred_first b (map slot_key_of slots)"
    using available_slots_ta(2) [OF assms, of b rm r xs slots] by simp
next
  assume s: "schedule_blocks set_iter rm cm course_assignments study_plan_mapping max_attempts = Inr sched"
  show "lecturer_slots_preferred sched"
    unfolding lecturer_slots_preferred_def
    using schedule_blocks_entries(2) [OF assms s] by (auto simp: placed_by_def)
qed

theorem candidate_slots_strict_and_soft_witness:
  "iteration_order insertion_order
   \<and> get_available_slots insertion_order ex_rm ex_block_mon (IsHall ex_hall1) [] = Inr [ex_sun11]
   \<and> set (map slot_key_of [ex_sun11]) = set (free_slot_keys (IsHall ex_hall1) []) \<inter> preferred_keys ex_block_mon
   \<and> get_available_slots insertion_order ex_rm ex_block_ta4 (IsHall ex_hall1) [] = Inr [ex_sun11, ex_sun9]
   \<and> mset (map slot_key_of [ex_sun11, ex_sun9]) = mset (free_slot_keys (IsHall ex_hall1) [])
   \<and> preferred_first ex_block_ta4 (map slot_key_of [ex_sun11, ex_sun9])
   \<and> schedule_blocks insertion_order ex_rm_grid new_ConstraintManager [ex_course_mon] ex_mapping1 1
       = Inr ex_sched_mon
   \<and> lecturer_slots_preferred ex_sched_mon"
proof -
  have l: "get_available_slots insertion_order ex_rm ex_block_mon (IsHall ex_hall1) [] = Inr [ex_sun11]"
    by code_simp
  have t: "get_available_slots insertion_order ex_rm ex_block_ta4 (IsHall ex_hall1) [] = Inr [ex_sun11, ex_sun9]"
    by code_simp
  have il: "isinstance_Lecturer (staff_member ex_block_mon)"
    by (simp add: ex_block_mon_def lecture_block_def)
  have ita: "isinstance_TeachingAssistant (staff_member ex_block_ta4)"
    by (simp add: ex_block_ta4_def lab_block_def)
  from l t il ita ex_mon insertion_order_ok
    candidate_slots_strict_and_soft [OF insertion_order_ok, where rm = ex_rm and b = ex_block_mon
      and r = "IsHall ex_hall1" and xs = "[]" and slots = "[ex_sun11]"]
    candidate_slots_strict_and_soft [OF insertion_order_ok, where rm = ex_rm and b = ex_block_ta4
      and r = "IsHall ex_hall1" and xs = "[]" and slots = "[ex_sun11, ex_sun9]"]
    candidate_slots_strict_and_soft [OF insertion_order_ok, where rm = ex_rm_grid
      and cm = new_ConstraintManager and course_assignments = "[ex_course_mon]"
      and study_plan_mapping = ex_mapping1 and max_attempts = 1 and sched = ex_sched_mon]
  show ?thesis by blast
qed

lemma keep_best_idem: "keep_best (keep_best B r) r = keep_best B r"
  by (simp add: keep_best_def better_irrefl)

lemma attempt_loop_same:
  "keep_best B r = B \<Longrightarrow> attempt_loop (\<lambda>attempt. Inr r) total_blocks k i B = Inr B"
  by (induction k arbitrary: i) (simp_all add: attempt_loop_step)

lemma attempt_loop_constant:
  "attempt_loop (\<lambda>attempt. Inr r) total_blocks (Suc k) 0 B = Inr (keep_best B r)"
  by (simp add: attempt_loop_step attempt_loop_same keep_best_idem)

lemma best_of_attempts_constant:
  assumes "snd (snd r) = length (fst r)"
  shows "best_of_attempts (\<lambda>attempt. Inr r) total_blocks (Suc k)
           = (if fst r = [] then Inl NoValidSchedule else Inr (fst r))"
proof -
  have "fst (keep_best ([], 0, 0) r) = fst r"
  proof (cases "better r ([], 0, 0)")
    case True
    then show ?thesis by (simp add: keep_best_def)
  next
    case False
    from not_better_init [OF False] assms have "fst r = []" by simp
    with False show ?thesis by (simp add: keep_best_def)
  qed
  with best_of_attempts_fold [OF attempt_loop_constant [of r total_blocks k "([], 0, 0)"]]
  show ?thesis by simp
qed

lemma best_of_attempts_raise:
  "best_of_attempts (\<lambda>attempt. Inl e) total_blocks (Suc k) = Inl e"
  by (simp add: best_of_attempts_def attempt_loop_step)

lemma run_attempt_count:
  assumes "run_attempt set_iter rm cm blocks = Inr (cur, s, n)"
  shows "n = length cur"
proof -
  from assms obtain sorted_blocks cm1
    where pl: "place_blocks set_iter rm (initialize_fresh_state cm) 0 sorted_blocks = Inr (n, cm1)"
      and cur: "cur = current_assignments cm1"
    by (auto simp: run_attempt_def Let_def get_all_assignments_def split: sum.splits)
  from place_blocks_count [OF pl] show ?thesis
    by (simp add: cur initialize_fresh_state_def)
qed

lemma run_attempt_any_state:
  "run_attempt set_iter rm cm blocks = run_attempt set_iter rm cm' blocks"
proof -
  have "initialize_fresh_state cm = initialize_fresh_state cm'"
    by (cases cm, cases cm') (simp add: initialize_fresh_state_def)
  then show ?thesis by (simp add: run_attempt_def)
qed

text \<open>All attempts of one call are the same attempt: the call returns what the first one placed.\<close>

lemma schedule_blocks_first_attempt:
  "schedule_blocks set_iter rm cm cas spm (Suc k) =
     (case convert_course_assignments_to_blocks cas spm of
        Inl e \<Rightarrow> Inl e
      | Inr blocks \<Rightarrow>
          (case run_attempt set_iter rm new_ConstraintManager blocks of
             Inl e \<Rightarrow> Inl e
           | Inr (cur, s, n) \<Rightarrow> if cur = [] then Inl NoValidSchedule else Inr cur))"
proof (cases "convert_course_assignments_to_blocks cas spm")
  case (Inl e)
  then show ?thesis by (simp add: schedule_blocks_def)
next
  case (Inr blocks)
  show ?thesis
  proof (cases "run_attempt set_iter rm new_ConstraintManager blocks")
    case (Inl e)
    with Inr run_attempt_any_state [of set_iter rm cm blocks new_ConstraintManager]
    show ?thesis by (simp add: schedule_blocks_def best_of_attempts_raise)
  next
    case r: (Inr res)
    obtain cur s n where res: "res = (cur, s, n)" by (cases res)
    from run_attempt_count [OF r [unfolded res]] have "snd (snd res) = length (fst res)"
      by (simp add: res)
    from best_of_attempts_constant [OF this, of "length blocks" k]
      Inr r run_attempt_any_state [of set_iter rm cm blocks new_ConstraintManager]
    show ?thesis by (simp add: schedule_blocks_def res)
  qed
qed



lemma total_available_slots_Inr:
  "total_available_slots set_iter rm b cur rooms n = Inr t \<Longrightarrow> r \<in> set rooms \<Longrightarrow>
     \<exists>slots. get_available_slots set_iter rm b r cur = Inr slots"
  by (induction rooms arbitrary: n) (auto split: sum.splits)

lemma block_scores_Inr:
  "block_scores set_iter rm cm bs = Inr keyed \<Longrightarrow> b \<in> set bs \<Longrightarrow>
     \<exists>sc. get_block_score set_iter rm cm b = Inr sc"
  by (induction bs arbitrary: keyed) (auto split: sum.splits)

lemma to_time_preferences_subset:
  assumes "to_time_preferences dur ks = Inr slots" and "set ks' \<subseteq> set ks"
  shows "\<exists>slots'. to_time_preferences dur ks' = Inr slots'"
proof -
  from assms(1) have "\<exists>slots. to_time_preferences dur ks = Inr slots" by blast
  then have "\<forall>(d, t) \<in> set ks. 0 \<le> int (hour t) + dur \<and> int (hour t) + dur \<le> 23"
    by (simp only: to_time_preferences_total)
  with assms(2) have "\<forall>(d, t) \<in> set ks'. 0 \<le> int (hour t) + dur \<and> int (hour t) + dur \<le> 23"
    by blast
  then show ?thesis by (simp only: to_time_preferences_total)
qed

lemma free_slot_keys_mono: "set (free_slot_keys r xs) \<subseteq> set (free_slot_keys r [])"
  by (auto simp: free_slot_keys_def dict_values_def)

lemma get_available_slots_mono:
  assumes it: "iteration_order set_iter"
    and g: "get_available_slots set_iter rm b r [] = Inr slots0"
  shows "\<exists>slots. get_available_slots set_iter rm b r xs = Inr slots"
proof (cases "isinstance_TeachingAssistant (staff_member b)")
  case True
  let ?P = "\<lambda>x. x \<in> set (map slot_key_of (timing_preferences (staff_member b)))"
  from g True have g0: "to_time_preferences (time_slot_duration rm)
      (sorted_reverse ?P (set_iter (free_slot_keys r []))) = Inr slots0"
    by (simp add: get_available_slots_def Let_def free_slot_keys_def)
  have "set (sorted_reverse ?P (set_iter (free_slot_keys r xs)))
      \<subseteq> set (sorted_reverse ?P (set_iter (free_slot_keys r [])))"
    using free_slot_keys_mono [of r xs]
    by (simp add: mset_sorted_reverse [THEN mset_eq_setD] set_iter_set [OF it])
  from to_time_preferences_subset [OF g0 this] True show ?thesis
    by (simp add: get_available_slots_def Let_def free_slot_keys_def)
next
  case False
  let ?P = "\<lambda>x. x \<in> set (map slot_key_of (timing_preferences (staff_member b)))"
  from g False have g0: "to_time_preferences (time_slot_duration rm)
      (set_iter (filter ?P (free_slot_keys r []))) = Inr slots0"
    by (simp add: get_available_slots_def Let_def free_slot_keys_def)
  have "set (set_iter (filter ?P (free_slot_keys r xs)))
      \<subseteq> set (set_iter (filter ?P (free_slot_keys r [])))"
    using free_slot_keys_mono [of r xs]
    by (auto simp: set_iter_set [OF it])
  from to_time_preferences_subset [OF g0 this] False show ?thesis
    by (simp add: get_available_slots_def Let_def free_slot_keys_def)
qed

lemma schedule_in_rooms_total:
  "\<forall>r \<in> set rooms. \<exists>slots. get_available_slots set_iter rm b r (current_assignments cm) = Inr slots \<Longrightarrow>
     \<exists>res. schedule_in_rooms set_iter rm cm b rooms = Inr res"
  by (induction rooms) (auto simp: get_all_assignments_def split: sum.splits option.splits)

lemma place_blocks_total:
  assumes it: "iteration_order set_iter"
  shows "\<forall>b \<in> set bs. \<forall>r \<in> set (get_suitable_rooms rm b default_capacity_ratio).
           \<exists>slots. get_available_slots set_iter rm b r [] = Inr slots \<Longrightarrow>
         \<exists>res. place_blocks set_iter rm cm n bs = Inr res"
proof (induction bs arbitrary: cm n)
  case Nil
  show ?case by simp
next
  case (Cons b bs)
  have "\<forall>r \<in> set (get_suitable_rooms rm b default_capacity_ratio).
      \<exists>slots. get_available_slots set_iter rm b r (current_assignments cm) = Inr slots"
    using Cons.prems get_available_slots_mono [OF it] by auto
  from schedule_in_rooms_total [OF this] obtain opt
    where s: "schedule_single_block set_iter rm cm b = Inr opt"
    by (auto simp: schedule_single_block_def)
  from Cons.prems have rest: "\<forall>b \<in> set bs. \<forall>r \<in> set (get_suitable_rooms rm b default_capacity_ratio).
           \<exists>slots. get_available_slots set_iter rm b r [] = Inr slots" by simp
  show ?case
  proof (cases opt)
    case None
    with s Cons.IH [OF rest, of cm n] show ?thesis by simp
  next
    case (Some a0)
    obtain ok cm1 where ma: "make_assignment cm (block_id b) a0 = (ok, cm1)"
      by (cases "make_assignment cm (block_id b) a0")
    with s Some Cons.IH [OF rest, of cm1] show ?thesis by (cases ok) simp_all
  qed
qed

text \<open>An attempt raises only in the priority sort, before it places a block.\<close>

lemma run_attempt_raises_in_sort:
  assumes it: "iteration_order set_iter"
    and r: "run_attempt set_iter rm cm blocks = Inl e"
  shows "sort_blocks_by_priority set_iter rm (initialize_fresh_state cm) blocks = Inl e"
proof (cases "sort_blocks_by_priority set_iter rm (initialize_fresh_state cm) blocks")
  case (Inl e')
  with r show ?thesis by (simp add: run_attempt_def Let_def)
next
  case (Inr sorted_blocks)
  then obtain keyed where k: "block_scores set_iter rm (initialize_fresh_state cm) blocks = Inr keyed"
    by (auto simp: sort_blocks_by_priority_def split: sum.splits)
  have "\<forall>b \<in> set sorted_blocks. \<forall>r \<in> set (get_suitable_rooms rm b default_capacity_ratio).
           \<exists>slots. get_available_slots set_iter rm b r [] = Inr slots"
  proof (intro ballI)
    fix b r
    assume "b \<in> set sorted_blocks" and rr: "r \<in> set (get_suitable_rooms rm b default_capacity_ratio)"
    with sort_blocks_set [OF Inr] have "b \<in> set blocks" by simp
    from block_scores_Inr [OF k this] obtain sc
      where "get_block_score set_iter rm (initialize_fresh_state cm) b = Inr sc" by blast
    then obtain t where "total_available_slots set_iter rm b []
        (get_suitable_rooms rm b default_capacity_ratio) 0 = Inr t"
      by (auto simp: get_block_score_def Let_def get_all_assignments_def initialize_fresh_state_def
          split: sum.splits)
    from total_available_slots_Inr [OF this rr]
    show "\<exists>slots. get_available_slots set_iter rm b r [] = Inr slots" .
  qed
  from place_blocks_total [OF it this, of "initialize_fresh_state cm" 0]
  obtain res where "place_blocks set_iter rm (initialize_fresh_state cm) 0 sorted_blocks = Inr res"
    by blast
  with Inr r show ?thesis by (cases res) (simp add: run_attempt_def Let_def)
qed

section \<open>The best attempt\<close>

text \<open>The call on the engine itself: it raises exactly when it runs no attempt or the attempt places nothing.\<close>

lemma schedule_blocks_result:
  assumes c: "convert_course_assignments_to_blocks cas spm = Inr blocks"
    and r: "run_attempt set_iter rm cm blocks = Inr (cur, s, n)"
  shows "schedule_blocks set_iter rm cm cas spm max_attempts
           = (if max_attempts = 0 \<or> n = 0 then Inl NoValidSchedule else Inr cur)"
proof (cases max_attempts)
  case 0
  with c show ?thesis by (simp add: schedule_blocks_def best_of_attempts_def)
next
  case (Suc k)
  from run_attempt_count [OF r] have n: "n = length cur" .
  from r run_attempt_any_state [of set_iter rm cm blocks new_ConstraintManager]
  have "run_attempt set_iter rm new_ConstraintManager blocks = Inr (cur, s, n)" by simp
  with c n show ?thesis
    by (simp add: Suc schedule_blocks_first_attempt)
qed



end
